theory Spec2Isabelle
  imports Complex_Main "HOL-Library.Sublist"
begin

section \<open>Conventions of the embedding\<close>

text \<open>
  The development embeds the scheduling core of the Singular backend:
  \<^verbatim>\<open>app/domain/srs.py\<close>, \<^verbatim>\<open>app/domain/adaptation.py\<close>, the answer evaluator of
  \<^verbatim>\<open>app/services/exercise.py\<close> and \<^verbatim>\<open>submit_review\<close> of \<^verbatim>\<open>app/services/review.py\<close>.

  \<^item> Python \<^verbatim>\<open>int\<close> is \<^typ>\<open>int\<close>.
  \<^item> Python \<^verbatim>\<open>float\<close> is \<^typ>\<open>real\<close>: arithmetic is exact. The properties below
    are order properties of values built with \<^verbatim>\<open>max\<close>, \<^verbatim>\<open>min\<close>, one rounding to an
    integer and comparisons of small integer ratios with a decimal threshold;
    IEEE rounding of the intermediate values is outside the model.
  \<^item> A \<^verbatim>\<open>datetime\<close> is the number of microseconds since a fixed epoch, an
    unbounded \<^typ>\<open>int\<close>; \<^verbatim>\<open>datetime.utcnow()\<close> is the parameter \<open>now\<close> of every
    function that reads the clock. Python's \<^verbatim>\<open>OverflowError\<close> for dates after
    year 9999 is outside the model.
  \<^item> An exception is a value of \<open>py_error\<close>, returned as \<open>Inl\<close>.
\<close>

type_synonym datetime = int

definition timedelta_minutes :: "int \<Rightarrow> int" where
  "timedelta_minutes n = n * 60000000"

definition timedelta_hours :: "int \<Rightarrow> int" where
  "timedelta_hours n = n * 3600000000"

definition timedelta_days :: "int \<Rightarrow> int" where
  "timedelta_days n = n * 86400000000"

definition total_seconds :: "int \<Rightarrow> real" where
  "total_seconds d = real_of_int d / 1000000"

text \<open>
  \<^verbatim>\<open>round(x)\<close> of Python 3 on a float: the nearest integer, a tie going to the
  even neighbour.
\<close>

definition py_round :: "real \<Rightarrow> int" where
  "py_round x =
     (let f = \<lfloor>x\<rfloor>; d = x - real_of_int f
      in if d < 1 / 2 then f
         else if 1 / 2 < d then f + 1
         else if even f then f else f + 1)"

datatype py_error =
    IndexError
  | ValueError int  \<comment> \<open>\<^verbatim>\<open>ValueError(f"SRSState nao encontrado para card {card_id}")\<close>\<close>

section \<open>Enumerations of \<^verbatim>\<open>app/domain/models.py\<close>\<close>

datatype CardType = VOCAB | PHRASE | GRAMMAR

datatype SRSCardState = NEW | LEARNING | REVIEW | RELEARNING

datatype ExerciseType = TRANSLATION | FILL_BLANK | BUILD_SENTENCE

datatype PatternType = VOCAB_WEAKNESS | GRAMMAR_CONFUSION | STRUCTURE_CONFUSION

section \<open>The scheduler, \<^verbatim>\<open>app/domain/srs.py\<close>\<close>

definition EASE_FACTOR_MIN :: real where "EASE_FACTOR_MIN = 1.3"
definition EASE_FACTOR_DEFAULT :: real where "EASE_FACTOR_DEFAULT = 2.5"
definition EASE_FACTOR_MAX :: real where "EASE_FACTOR_MAX = 3.5"
definition LEARNING_STEPS_MINUTES :: "int list" where "LEARNING_STEPS_MINUTES = [1, 10]"
definition GRADUATING_INTERVAL_DAYS :: int where "GRADUATING_INTERVAL_DAYS = 1"
definition RELEARNING_INTERVAL_DAYS :: int where "RELEARNING_INTERVAL_DAYS = 1"
definition LAPSE_THRESHOLD :: int where "LAPSE_THRESHOLD = 3"
definition LAPSE_EASE_PENALTY :: real where "LAPSE_EASE_PENALTY = 0.20"
definition ADAPTATION_PENALTY_MULTIPLIER :: real where "ADAPTATION_PENALTY_MULTIPLIER = 0.70"

record ReviewResult =
  new_state :: SRSCardState
  new_interval :: int
  new_ease_factor :: real
  new_repetitions :: int
  new_lapses :: int
  new_stability :: real
  new_due_date :: datetime
  was_correct :: bool

text \<open>
  \<^verbatim>\<open>xs[i]\<close> on a Python list: a negative index counts from the end, an index out
  of range raises \<^verbatim>\<open>IndexError\<close>.
\<close>

definition py_index :: "'a list \<Rightarrow> int \<Rightarrow> py_error + 'a" where
  "py_index xs i =
     (if 0 \<le> i \<and> i < int (length xs) then Inr (xs ! nat i)
      else if i < 0 \<and> - int (length xs) \<le> i then Inr (xs ! nat (int (length xs) + i))
      else Inl IndexError)"

definition apply_adaptation_penalty :: "int \<Rightarrow> real \<Rightarrow> int" where
  "apply_adaptation_penalty interval penalty =
     (if penalty \<le> 0 then interval
      else let multiplier = 1.0 - (penalty * (1.0 - ADAPTATION_PENALTY_MULTIPLIER))
           in max 1 (py_round (real_of_int interval * multiplier)))"

definition handle_new_card ::
  "int \<Rightarrow> bool \<Rightarrow> real \<Rightarrow> int \<Rightarrow> real \<Rightarrow> real \<Rightarrow> datetime \<Rightarrow> py_error + ReviewResult" where
  "handle_new_card quality correct ease_factor lapses stability adaptation_penalty now =
     (if correct then
        (case py_index LEARNING_STEPS_MINUTES 0 of
           Inl e \<Rightarrow> Inl e
         | Inr step \<Rightarrow>
             Inr \<lparr> new_state = LEARNING, new_interval = 0, new_ease_factor = ease_factor,
                   new_repetitions = 0, new_lapses = lapses, new_stability = stability,
                   new_due_date = now + timedelta_minutes step, was_correct = True \<rparr>)
      else
        Inr \<lparr> new_state = LEARNING, new_interval = 0,
              new_ease_factor = max EASE_FACTOR_MIN (ease_factor - LAPSE_EASE_PENALTY),
              new_repetitions = 0, new_lapses = lapses,
              new_stability = max 0.5 (stability * 0.7),
              new_due_date = now + timedelta_minutes 1, was_correct = False \<rparr>)"

definition handle_learning_card ::
  "int \<Rightarrow> bool \<Rightarrow> real \<Rightarrow> int \<Rightarrow> real \<Rightarrow> real \<Rightarrow> int \<Rightarrow> datetime \<Rightarrow> py_error + ReviewResult" where
  "handle_learning_card quality correct ease_factor lapses stability adaptation_penalty
       learning_step_index now =
     (if correct then
        (let next_step = learning_step_index + 1
         in if int (length LEARNING_STEPS_MINUTES) \<le> next_step then
              (let interval = apply_adaptation_penalty GRADUATING_INTERVAL_DAYS adaptation_penalty
               in Inr \<lparr> new_state = REVIEW, new_interval = interval,
                        new_ease_factor = ease_factor, new_repetitions = 1,
                        new_lapses = lapses,
                        new_stability = max stability (real_of_int interval * 0.8),
                        new_due_date = now + timedelta_days interval, was_correct = True \<rparr>)
            else
              (case py_index LEARNING_STEPS_MINUTES next_step of
                 Inl e \<Rightarrow> Inl e
               | Inr step \<Rightarrow>
                   Inr \<lparr> new_state = LEARNING, new_interval = 0,
                         new_ease_factor = ease_factor, new_repetitions = 0,
                         new_lapses = lapses, new_stability = stability,
                         new_due_date = now + timedelta_minutes step, was_correct = True \<rparr>))
      else
        (case py_index LEARNING_STEPS_MINUTES 0 of
           Inl e \<Rightarrow> Inl e
         | Inr step \<Rightarrow>
             Inr \<lparr> new_state = LEARNING, new_interval = 0,
                   new_ease_factor = max EASE_FACTOR_MIN (ease_factor - LAPSE_EASE_PENALTY),
                   new_repetitions = 0, new_lapses = lapses,
                   new_stability = max 0.5 (stability * 0.7),
                   new_due_date = now + timedelta_minutes step, was_correct = False \<rparr>))"

definition handle_review_card ::
  "int \<Rightarrow> bool \<Rightarrow> int \<Rightarrow> real \<Rightarrow> int \<Rightarrow> int \<Rightarrow> real \<Rightarrow> real \<Rightarrow> datetime \<Rightarrow> ReviewResult" where
  "handle_review_card quality correct interval ease_factor repetitions lapses stability
       adaptation_penalty now =
     (if correct then
        (let new_interval_raw =
               (if repetitions = 1 then 6
                else py_round (real_of_int interval * ease_factor));
             new_interval0 = apply_adaptation_penalty new_interval_raw adaptation_penalty;
             new_interval1 = max 1 new_interval0
         in \<lparr> new_state = REVIEW, new_interval = new_interval1,
               new_ease_factor = ease_factor, new_repetitions = repetitions + 1,
               new_lapses = lapses, new_stability = real_of_int new_interval1 * 0.9,
               new_due_date = now + timedelta_days new_interval1, was_correct = True \<rparr>)
      else
        (let new_lapses0 = lapses + 1;
             new_ease = max EASE_FACTOR_MIN (ease_factor - LAPSE_EASE_PENALTY);
             new_interval1 = RELEARNING_INTERVAL_DAYS;
             new_stab = max 0.5 (stability * 0.5)
         in \<lparr> new_state = RELEARNING, new_interval = new_interval1,
               new_ease_factor = new_ease, new_repetitions = 0,
               new_lapses = new_lapses0, new_stability = new_stab,
               new_due_date = now + timedelta_days new_interval1, was_correct = False \<rparr>))"

definition handle_relearning_card ::
  "int \<Rightarrow> bool \<Rightarrow> real \<Rightarrow> int \<Rightarrow> real \<Rightarrow> real \<Rightarrow> datetime \<Rightarrow> ReviewResult" where
  "handle_relearning_card quality correct ease_factor lapses stability adaptation_penalty now =
     (if correct then
        (let interval = apply_adaptation_penalty (RELEARNING_INTERVAL_DAYS + 1) adaptation_penalty
         in \<lparr> new_state = REVIEW, new_interval = interval,
               new_ease_factor = ease_factor, new_repetitions = 1, new_lapses = lapses,
               new_stability = max stability (real_of_int interval * 0.7),
               new_due_date = now + timedelta_days interval, was_correct = True \<rparr>)
      else
        \<lparr> new_state = RELEARNING, new_interval = 0,
          new_ease_factor = max EASE_FACTOR_MIN (ease_factor - LAPSE_EASE_PENALTY),
          new_repetitions = 0, new_lapses = lapses + 1,
          new_stability = max 0.3 (stability * 0.5),
          new_due_date = now + timedelta_hours 4, was_correct = False \<rparr>)"

text \<open>
  The SM-2 update of the ease factor, computed by \<^verbatim>\<open>calculate_next_review\<close>
  before it branches on the state (lines 100 and 101 of \<^verbatim>\<open>srs.py\<close>).
\<close>

definition sm2_ease_factor :: "int \<Rightarrow> real \<Rightarrow> real" where
  "sm2_ease_factor quality ease_factor =
     (let e = ease_factor
                + (0.1 - real_of_int (5 - quality) * (0.08 + real_of_int (5 - quality) * 0.02))
      in max EASE_FACTOR_MIN (min EASE_FACTOR_MAX e))"

text \<open>
  \<^verbatim>\<open>calculate_next_review\<close>. The state is a value of the enumeration, so the
  fallback after the \<^verbatim>\<open>elif\<close> chain (commented "nao deve ocorrer") has no case
  here.
\<close>

definition calculate_next_review ::
  "int \<Rightarrow> SRSCardState \<Rightarrow> int \<Rightarrow> real \<Rightarrow> int \<Rightarrow> int \<Rightarrow> real \<Rightarrow> real \<Rightarrow> int \<Rightarrow> datetime
     \<Rightarrow> py_error + ReviewResult" where
  "calculate_next_review quality current_state interval ease_factor repetitions lapses
       stability adaptation_penalty learning_step_index now =
     (let correct = (LAPSE_THRESHOLD \<le> quality);
          new_ease = sm2_ease_factor quality ease_factor
      in case current_state of
           NEW \<Rightarrow>
             handle_new_card quality correct new_ease lapses stability adaptation_penalty now
         | LEARNING \<Rightarrow>
             handle_learning_card quality correct new_ease lapses stability adaptation_penalty
               learning_step_index now
         | REVIEW \<Rightarrow>
             Inr (handle_review_card quality correct interval new_ease repetitions lapses
                    stability adaptation_penalty now)
         | RELEARNING \<Rightarrow>
             Inr (handle_relearning_card quality correct new_ease lapses stability
                    adaptation_penalty now))"

text \<open>
  \<^verbatim>\<open>get_card_urgency_score\<close>: \<open>base_score\<close> is accumulated in the order of the
  source; \<^verbatim>\<open>state_priority.get(state, 0)\<close> is the table below on the four states.
\<close>

definition state_priority :: "SRSCardState \<Rightarrow> real" where
  "state_priority s =
     (case s of RELEARNING \<Rightarrow> 100.0 | LEARNING \<Rightarrow> 50.0 | REVIEW \<Rightarrow> 10.0 | NEW \<Rightarrow> 1.0)"

definition get_card_urgency_score ::
  "datetime option \<Rightarrow> SRSCardState \<Rightarrow> int \<Rightarrow> datetime \<Rightarrow> real" where
  "get_card_urgency_score due_date state lapses now =
     (let base_score0 = 0.0;
          base_score1 = base_score0 + state_priority state;
          base_score2 =
            (case due_date of
               None \<Rightarrow> base_score1
             | Some d \<Rightarrow>
                 (let delay_hours = total_seconds (now - d) / 3600
                  in base_score1 + max 0 (delay_hours * 2)));
          base_score3 = base_score2 + real_of_int (lapses * 5)
      in base_score3)"

section \<open>The tables read and written by the detector and by \<^verbatim>\<open>submit_review\<close>\<close>

text \<open>
  A table is the list of its rows; a query without \<^verbatim>\<open>order_by\<close> returns rows
  in table order, \<^verbatim>\<open>.first()\<close> the first match, \<^verbatim>\<open>.all()\<close> every match. A record
  keeps the columns that the embedded functions read or write; the primary key
  of a row that no embedded function reads is left out. Field names carry the
  table's prefix, since the tables share column names.
\<close>

record SRSState =
  srs_card_id :: int
  srs_user_id :: int
  srs_interval :: int
  srs_ease_factor :: real
  srs_repetitions :: int
  srs_lapses :: int
  srs_state :: SRSCardState
  srs_due_date :: "datetime option"
  srs_last_reviewed_at :: "datetime option"
  srs_stability :: real
  srs_adaptation_penalty :: real

record Card =
  card_id :: int
  card_type :: CardType

record Exercise =
  ex_id :: int
  ex_card_id :: int
  ex_exercise_type :: ExerciseType

record ExerciseSubmission =
  sub_exercise_id :: int
  sub_user_id :: int
  sub_is_correct :: bool
  sub_submitted_at :: datetime

text \<open>The JSON snapshot that \<^verbatim>\<open>submit_review\<close> stores before and after the update.\<close>

record srs_snapshot =
  snap_state :: SRSCardState
  snap_interval :: int
  snap_ease_factor :: real
  snap_repetitions :: int
  snap_lapses :: int

record ReviewLog =
  log_card_id :: int
  log_user_id :: int
  log_quality :: int
  log_response_time_ms :: "int option"
  log_was_correct :: bool
  log_srs_state_before :: srs_snapshot
  log_srs_state_after :: srs_snapshot
  log_reviewed_at :: datetime

text \<open>
  The description of a pattern is an f-string that renders the error rate as a
  percentage; the model keeps the template and the rate.
\<close>

datatype description =
    VocabDescription real
  | GrammarDescription real
  | StructureDescription real
  | OtherDescription

text \<open>
  \<^verbatim>\<open>items_affected\<close> is a JSON list that the code only builds from a Python
  \<^verbatim>\<open>set\<close> and only reads through \<^verbatim>\<open>set(...)\<close> and its truth value: it is a set
  here (\<^verbatim>\<open>None\<close> and \<^verbatim>\<open>[]\<close> are the empty set).
\<close>

record ErrorPattern =
  pat_user_id :: int
  pat_pattern_type :: PatternType
  pat_description :: description
  pat_count :: int
  pat_severity :: real
  pat_items_affected :: "int set"
  pat_is_active :: bool
  pat_first_detected_at :: datetime
  pat_last_seen_at :: datetime

record database =
  srs_states :: "SRSState list"
  review_logs :: "ReviewLog list"
  cards :: "Card list"
  exercises :: "Exercise list"
  exercise_submissions :: "ExerciseSubmission list"
  error_patterns :: "ErrorPattern list"

text \<open>An attribute assignment on the object that \<^verbatim>\<open>.first()\<close> returned.\<close>

fun update_first :: "('a \<Rightarrow> bool) \<Rightarrow> ('a \<Rightarrow> 'a) \<Rightarrow> 'a list \<Rightarrow> 'a list" where
  "update_first P f [] = []"
| "update_first P f (x # xs) = (if P x then f x # xs else x # update_first P f xs)"

section \<open>The adaptation detector, \<^verbatim>\<open>app/domain/adaptation.py\<close>\<close>

definition VOCAB_ERROR_THRESHOLD :: real where "VOCAB_ERROR_THRESHOLD = 0.40"
definition GRAMMAR_ERROR_THRESHOLD :: real where "GRAMMAR_ERROR_THRESHOLD = 0.35"
definition STRUCTURE_ERROR_THRESHOLD :: real where "STRUCTURE_ERROR_THRESHOLD = 0.45"
definition ANALYSIS_WINDOW_DAYS :: int where "ANALYSIS_WINDOW_DAYS = 7"
definition MIN_REVIEWS_FOR_ANALYSIS :: nat where "MIN_REVIEWS_FOR_ANALYSIS = 5"
definition MAX_SEVERITY :: real where "MAX_SEVERITY = 1.0"
definition SEVERITY_INCREMENT :: real where "SEVERITY_INCREMENT = 0.2"

definition query_card :: "int \<Rightarrow> database \<Rightarrow> Card option" where
  "query_card cid db = find (\<lambda>c. card_id c = cid) (cards db)"

definition get_card_type :: "int \<Rightarrow> database \<Rightarrow> CardType option" where
  "get_card_type cid db = map_option card_type (query_card cid db)"

definition query_exercise :: "int \<Rightarrow> database \<Rightarrow> Exercise option" where
  "query_exercise eid db = find (\<lambda>e. ex_id e = eid) (exercises db)"

definition get_exercise_type :: "int \<Rightarrow> database \<Rightarrow> ExerciseType option" where
  "get_exercise_type eid db = map_option ex_exercise_type (query_exercise eid db)"

definition pattern_matches :: "int \<Rightarrow> PatternType \<Rightarrow> ErrorPattern \<Rightarrow> bool" where
  "pattern_matches user_id pattern_type p =
     (pat_user_id p = user_id \<and> pat_pattern_type p = pattern_type \<and> pat_is_active p)"

text \<open>
  \<^verbatim>\<open>_upsert_pattern\<close>. The timestamps that the database fills in on insert
  (\<^verbatim>\<open>server_default=func.now()\<close>) are \<open>now\<close>.
\<close>

definition upsert_pattern ::
  "int \<Rightarrow> PatternType \<Rightarrow> description \<Rightarrow> int set \<Rightarrow> datetime \<Rightarrow> database
     \<Rightarrow> ErrorPattern \<times> database" where
  "upsert_pattern user_id pattern_type descr affected_cards now db =
     (case find (pattern_matches user_id pattern_type) (error_patterns db) of
        Some existing \<Rightarrow>
          (let updated = existing
                 \<lparr> pat_count := pat_count existing + 1,
                   pat_severity := min MAX_SEVERITY (pat_severity existing + SEVERITY_INCREMENT),
                   pat_last_seen_at := now,
                   pat_description := descr,
                   pat_items_affected := pat_items_affected existing \<union> affected_cards \<rparr>
           in (updated,
               db \<lparr> error_patterns :=
                      update_first (pattern_matches user_id pattern_type) (\<lambda>_. updated)
                        (error_patterns db) \<rparr>))
      | None \<Rightarrow>
          (let pattern =
                 \<lparr> pat_user_id = user_id, pat_pattern_type = pattern_type,
                   pat_description = descr, pat_count = 1,
                   pat_severity = SEVERITY_INCREMENT, pat_items_affected = affected_cards,
                   pat_is_active = True, pat_first_detected_at = now,
                   pat_last_seen_at = now \<rparr>
           in (pattern, db \<lparr> error_patterns := error_patterns db @ [pattern] \<rparr>)))"

text \<open>
  \<^verbatim>\<open>_apply_srs_penalty_to_cards\<close>: for each card id, the first row of
  \<^verbatim>\<open>srs_states\<close> with that card (of any user) gets the penalty.
\<close>

fun penalise_rows :: "int set \<Rightarrow> real \<Rightarrow> SRSState list \<Rightarrow> SRSState list" where
  "penalise_rows card_ids penalty [] = []"
| "penalise_rows card_ids penalty (srs # rest) =
     (if srs_card_id srs \<in> card_ids
      then srs \<lparr> srs_adaptation_penalty := min 1.0 penalty \<rparr>
             # penalise_rows (card_ids - {srs_card_id srs}) penalty rest
      else srs # penalise_rows card_ids penalty rest)"

definition apply_srs_penalty_to_cards :: "int set \<Rightarrow> real \<Rightarrow> database \<Rightarrow> database" where
  "apply_srs_penalty_to_cards card_ids penalty db =
     db \<lparr> srs_states := penalise_rows card_ids penalty (srs_states db) \<rparr>"

text \<open>The first loop of \<^verbatim>\<open>_analyze_vocab_errors\<close>: the errors and the affected cards.\<close>

fun vocab_scan :: "database \<Rightarrow> ReviewLog list \<Rightarrow> ReviewLog list \<times> int list" where
  "vocab_scan db [] = ([], [])"
| "vocab_scan db (review # rest) =
     (let (errors, affected) = vocab_scan db rest
      in case query_card (log_card_id review) db of
           Some found \<Rightarrow>
             if card_type found = VOCAB \<and> \<not> log_was_correct review
             then (review # errors, card_id found # affected)
             else (errors, affected)
         | None \<Rightarrow> (errors, affected))"

definition analyze_vocab_errors ::
  "int \<Rightarrow> ReviewLog list \<Rightarrow> datetime \<Rightarrow> database \<Rightarrow> ErrorPattern list \<times> database" where
  "analyze_vocab_errors user_id reviews now db =
     (let (vocab_errors, affected_cards) = vocab_scan db reviews;
          vocab_reviews = filter (\<lambda>r. get_card_type (log_card_id r) db = Some VOCAB) reviews
      in if vocab_reviews = [] then ([], db)
         else
           (let error_rate = real (length vocab_errors) / real (length vocab_reviews)
            in if VOCAB_ERROR_THRESHOLD \<le> error_rate then
                 (let (pattern, db1) =
                        upsert_pattern user_id VOCAB_WEAKNESS (VocabDescription error_rate)
                          (set affected_cards) now db;
                      db2 = apply_srs_penalty_to_cards (set affected_cards) 0.6 db1
                  in ([pattern], db2))
               else ([], db)))"

fun grammar_scan :: "database \<Rightarrow> ReviewLog list \<Rightarrow> ReviewLog list \<times> int list" where
  "grammar_scan db [] = ([], [])"
| "grammar_scan db (review # rest) =
     (let (errors, affected) = grammar_scan db rest
      in if get_card_type (log_card_id review) db = Some GRAMMAR \<and> \<not> log_was_correct review
         then (review # errors, log_card_id review # affected)
         else (errors, affected))"

definition analyze_grammar_errors ::
  "int \<Rightarrow> ReviewLog list \<Rightarrow> datetime \<Rightarrow> database \<Rightarrow> ErrorPattern list \<times> database" where
  "analyze_grammar_errors user_id reviews now db =
     (let (grammar_errors, affected_cards) = grammar_scan db reviews;
          grammar_reviews = filter (\<lambda>r. get_card_type (log_card_id r) db = Some GRAMMAR) reviews
      in if grammar_reviews = [] then ([], db)
         else
           (let error_rate = real (length grammar_errors) / real (length grammar_reviews)
            in if GRAMMAR_ERROR_THRESHOLD \<le> error_rate then
                 (let (pattern, db1) =
                        upsert_pattern user_id GRAMMAR_CONFUSION (GrammarDescription error_rate)
                          (set affected_cards) now db;
                      db2 = apply_srs_penalty_to_cards (set affected_cards) 0.5 db1
                  in ([pattern], db2))
               else ([], db)))"

text \<open>
  The loop of \<^verbatim>\<open>_analyze_structure_errors\<close>; \<^verbatim>\<open>if exercise.card_id:\<close> is false
  for the id 0.
\<close>

fun structure_scan ::
  "database \<Rightarrow> ExerciseSubmission list \<Rightarrow> ExerciseSubmission list \<times> int list" where
  "structure_scan db [] = ([], [])"
| "structure_scan db (submission # rest) =
     (let (errors, affected) = structure_scan db rest
      in case query_exercise (sub_exercise_id submission) db of
           Some exercise \<Rightarrow>
             if ex_exercise_type exercise = BUILD_SENTENCE \<and> \<not> sub_is_correct submission
             then (submission # errors,
                   if ex_card_id exercise \<noteq> 0 then ex_card_id exercise # affected
                   else affected)
             else (errors, affected)
         | None \<Rightarrow> (errors, affected))"

definition analyze_structure_errors ::
  "int \<Rightarrow> ExerciseSubmission list \<Rightarrow> datetime \<Rightarrow> database
     \<Rightarrow> ErrorPattern list \<times> database" where
  "analyze_structure_errors user_id submissions now db =
     (let (structure_errors, affected_cards) = structure_scan db submissions;
          structure_submissions =
            filter (\<lambda>s. get_exercise_type (sub_exercise_id s) db = Some BUILD_SENTENCE)
              submissions
      in if structure_submissions = [] then ([], db)
         else
           (let error_rate =
                  real (length structure_errors) / real (length structure_submissions)
            in if STRUCTURE_ERROR_THRESHOLD \<le> error_rate then
                 (let (pattern, db1) =
                        upsert_pattern user_id STRUCTURE_CONFUSION
                          (StructureDescription error_rate) (set affected_cards) now db
                  in ([pattern], db1))
               else ([], db)))"

definition recent_reviews_of :: "int \<Rightarrow> datetime \<Rightarrow> database \<Rightarrow> ReviewLog list" where
  "recent_reviews_of user_id now db =
     (let cutoff = now - timedelta_days ANALYSIS_WINDOW_DAYS
      in filter (\<lambda>r. log_user_id r = user_id \<and> cutoff \<le> log_reviewed_at r) (review_logs db))"

definition recent_submissions_of ::
  "int \<Rightarrow> datetime \<Rightarrow> database \<Rightarrow> ExerciseSubmission list" where
  "recent_submissions_of user_id now db =
     (let cutoff = now - timedelta_days ANALYSIS_WINDOW_DAYS
      in filter (\<lambda>s. sub_user_id s = user_id \<and> cutoff \<le> sub_submitted_at s)
           (exercise_submissions db))"

definition analyze_and_update_patterns ::
  "int \<Rightarrow> datetime \<Rightarrow> database \<Rightarrow> ErrorPattern list \<times> database" where
  "analyze_and_update_patterns user_id now db =
     (let recent_reviews = recent_reviews_of user_id now db;
          (active1, db1) =
            (if MIN_REVIEWS_FOR_ANALYSIS \<le> length recent_reviews then
               (let (vocab_patterns, dbv) = analyze_vocab_errors user_id recent_reviews now db;
                    (grammar_patterns, dbg) =
                      analyze_grammar_errors user_id recent_reviews now dbv
                in (vocab_patterns @ grammar_patterns, dbg))
             else ([], db));
          recent_submissions = recent_submissions_of user_id now db1
      in if MIN_REVIEWS_FOR_ANALYSIS \<le> length recent_submissions then
           (let (structure_patterns, dbs) =
                  analyze_structure_errors user_id recent_submissions now db1
            in (active1 @ structure_patterns, dbs))
         else (active1, db1))"

text \<open>\<^verbatim>\<open>resolve_pattern_if_improved\<close>: the loop over the learner's active patterns.\<close>

definition pattern_improved :: "ReviewLog list \<Rightarrow> ErrorPattern \<Rightarrow> bool" where
  "pattern_improved recent_reviews pattern =
     (pat_items_affected pattern \<noteq> {} \<and>
      (let pattern_reviews =
             filter (\<lambda>r. log_card_id r \<in> pat_items_affected pattern) recent_reviews
       in MIN_REVIEWS_FOR_ANALYSIS \<le> length pattern_reviews \<and>
          real (length (filter (\<lambda>r. \<not> log_was_correct r) pattern_reviews))
            / real (length pattern_reviews) < 0.20))"

definition resolve_pattern_if_improved ::
  "int \<Rightarrow> datetime \<Rightarrow> database \<Rightarrow> ErrorPattern list \<times> database" where
  "resolve_pattern_if_improved user_id now db =
     (let recent_reviews = recent_reviews_of user_id now db;
          hit = (\<lambda>p. pat_user_id p = user_id \<and> pat_is_active p
                      \<and> pattern_improved recent_reviews p);
          resolved = map (\<lambda>p. p \<lparr> pat_is_active := False \<rparr>) (filter hit (error_patterns db))
      in (resolved,
          db \<lparr> error_patterns :=
                 map (\<lambda>p. if hit p then p \<lparr> pat_is_active := False \<rparr> else p)
                   (error_patterns db) \<rparr>))"

section \<open>Strings\<close>

text \<open>
  A Python \<^verbatim>\<open>str\<close> is the list of its Unicode code points. \<open>ustr\<close> embeds an
  ASCII literal; the accented letters of the messages are written as code
  points.
\<close>

type_synonym ustring = "nat list"

definition ustr :: "string \<Rightarrow> ustring" where
  "ustr s = map of_char s"

text \<open>
  The characters that \<^verbatim>\<open>str.strip\<close>, \<^verbatim>\<open>str.split\<close> and \<^verbatim>\<open>\s\<close> of \<^verbatim>\<open>re\<close> take for
  whitespace.
\<close>

definition is_space :: "nat \<Rightarrow> bool" where
  "is_space c =
     ((9 \<le> c \<and> c \<le> 13) \<or> (28 \<le> c \<and> c \<le> 32) \<or> c = 133 \<or> c = 160 \<or> c = 5760
      \<or> (8192 \<le> c \<and> c \<le> 8202) \<or> c = 8232 \<or> c = 8233 \<or> c = 8239 \<or> c = 8287
      \<or> c = 12288)"

definition py_strip :: "ustring \<Rightarrow> ustring" where
  "py_strip s = rev (dropWhile is_space (rev (dropWhile is_space s)))"

text \<open>\<^verbatim>\<open>s.split()\<close>: the maximal runs of characters that are not whitespace.\<close>

fun split_words :: "ustring \<Rightarrow> ustring \<Rightarrow> ustring list" where
  "split_words cur [] = (if cur = [] then [] else [rev cur])"
| "split_words cur (c # cs) =
     (if is_space c then (if cur = [] then split_words [] cs else rev cur # split_words [] cs)
      else split_words (c # cur) cs)"

definition py_split :: "ustring \<Rightarrow> ustring list" where
  "py_split s = split_words [] s"

text \<open>\<^verbatim>\<open>s.split(sep)\<close> for a separator of one character: empty pieces are kept.\<close>

fun split_on :: "nat \<Rightarrow> ustring \<Rightarrow> ustring list" where
  "split_on sep [] = [[]]"
| "split_on sep (c # cs) =
     (if c = sep then [] # split_on sep cs
      else (case split_on sep cs of
              [] \<Rightarrow> [[c]]
            | w # ws \<Rightarrow> (c # w) # ws))"

text \<open>
  \<^verbatim>\<open>re.sub(r"[...]$", "", text)\<close> with the class of the nine closing punctuation
  marks (four of them CJK): \<^verbatim>\<open>$\<close> matches at the end of the string and before a
  newline that ends it.
\<close>

definition is_final_punctuation :: "nat \<Rightarrow> bool" where
  "is_final_punctuation c =
     (c = 0x3002 \<or> c = 0x3001 \<or> c = 0xFF01 \<or> c = 0xFF1F
      \<or> c = 46 \<or> c = 33 \<or> c = 63 \<or> c = 44 \<or> c = 59)"

definition strip_final_punctuation :: "ustring \<Rightarrow> ustring" where
  "strip_final_punctuation s =
     (if s \<noteq> [] \<and> is_final_punctuation (last s) then butlast s
      else if 2 \<le> length s \<and> last s = 10 \<and> is_final_punctuation (last (butlast s))
      then butlast (butlast s) @ [10]
      else s)"

text \<open>\<^verbatim>\<open>re.sub(r"\s+", " ", text)\<close>; the flag says that the run has begun.\<close>

fun collapse_spaces :: "bool \<Rightarrow> ustring \<Rightarrow> ustring" where
  "collapse_spaces in_run [] = []"
| "collapse_spaces in_run (c # cs) =
     (if is_space c then (if in_run then collapse_spaces True cs
                          else 32 # collapse_spaces True cs)
      else c # collapse_spaces False cs)"

section \<open>The answer evaluator, \<^verbatim>\<open>app/services/exercise.py\<close>\<close>

text \<open>
  \<^verbatim>\<open>str.lower\<close> is the parameter \<open>lower\<close> of the evaluator: its Unicode tables
  are not part of the repository. \<open>ascii_lower\<close> is its restriction to ASCII.
\<close>

definition ascii_lower :: "ustring \<Rightarrow> ustring" where
  "ascii_lower s = map (\<lambda>c. if 65 \<le> c \<and> c \<le> 90 then c + 32 else c) s"

record AnswerEvaluation =
  is_correct :: bool
  score :: real
  feedback :: ustring
  error_category :: "ustring option"

definition normalize_answer :: "(ustring \<Rightarrow> ustring) \<Rightarrow> ustring \<Rightarrow> ustring" where
  "normalize_answer lower text =
     (let text1 = lower (py_strip text);
          text2 = strip_final_punctuation text1;
          text3 = collapse_spaces False text2
      in text3)"

definition evaluate_build_sentence ::
  "ustring \<Rightarrow> ustring \<Rightarrow> ustring \<Rightarrow> ustring \<Rightarrow> AnswerEvaluation" where
  "evaluate_build_sentence user_norm expected_norm user_raw expected_raw =
     (let user_words = set (py_split user_norm);
          expected_words = set (py_split expected_norm);
          wrong = \<lparr> is_correct = False, score = 0.0,
                    feedback = ustr ''Resposta incorreta. Correto: '' @ expected_raw,
                    error_category = Some (ustr ''meaning'') \<rparr>
      in if user_words = expected_words then
           \<lparr> is_correct = False, score = 0.7,
             feedback = ustr ''Palavras corretas, mas a ordem est'' @ [0xE1]
                          @ ustr '' errada. Correto: '' @ expected_raw,
             error_category = Some (ustr ''order'') \<rparr>
         else
           (let intersection = user_words \<inter> expected_words
            in if 0 < card expected_words then
                 (let ratio = real (card intersection) / real (card expected_words)
                  in if 0.7 \<le> ratio then
                       \<lparr> is_correct = False, score = ratio,
                         feedback = ustr ''Quase! Verifique as palavras. Correto: ''
                                      @ expected_raw,
                         error_category = Some (ustr ''order'') \<rparr>
                     else wrong)
               else wrong))"

definition evaluate_fill_blank ::
  "ustring \<Rightarrow> ustring list \<Rightarrow> ustring \<Rightarrow> ustring \<Rightarrow> AnswerEvaluation" where
  "evaluate_fill_blank user_norm accepted_norms user_raw expected_raw =
     (if list_ex (\<lambda>accepted. prefix accepted user_norm \<or> prefix user_norm accepted)
           accepted_norms
      then \<lparr> is_correct = True, score = 0.9, feedback = ustr ''Correto!'',
             error_category = None \<rparr>
      else \<lparr> is_correct = False, score = 0.0,
             feedback = ustr ''Resposta incorreta. Esperado: '' @ expected_raw,
             error_category = Some (ustr ''vocabulary'') \<rparr>)"

definition char_similarity :: "ustring \<Rightarrow> ustring \<Rightarrow> real" where
  "char_similarity s1 s2 =
     (if s1 = [] \<or> s2 = [] then 0.0
      else (let intersection = set s1 \<inter> set s2;
                union = set s1 \<union> set s2
            in if union \<noteq> {} then real (card intersection) / real (card union) else 0.0))"

definition evaluate_translation ::
  "ustring \<Rightarrow> ustring list \<Rightarrow> ustring \<Rightarrow> ustring \<Rightarrow> AnswerEvaluation" where
  "evaluate_translation user_norm accepted_norms user_raw expected_raw =
     (if list_ex (\<lambda>accepted. sublist accepted user_norm \<or> sublist user_norm accepted)
           accepted_norms
      then \<lparr> is_correct = True, score = 0.85,
             feedback = ustr ''Correto! (resposta parcialmente aceita)'',
             error_category = None \<rparr>
      else
        (let similarity =
               char_similarity user_norm (case accepted_norms of [] \<Rightarrow> [] | a # _ \<Rightarrow> a)
         in if 0.7 \<le> similarity then
              \<lparr> is_correct = False, score = similarity,
                feedback = ustr ''Pr'' @ [0xF3] @ ustr ''ximo, mas n'' @ [0xE3]
                             @ ustr ''o exato. Esperado: '' @ expected_raw,
                error_category = Some (ustr ''spelling'') \<rparr>
            else
              \<lparr> is_correct = False, score = similarity,
                feedback = ustr ''Resposta incorreta. Esperado: '' @ expected_raw,
                error_category = Some (ustr ''vocabulary'') \<rparr>))"

text \<open>
  \<^verbatim>\<open>evaluate_answer\<close>; its parameter \<^verbatim>\<open>tolerance\<close> is read nowhere in the body
  and is left out.
\<close>

definition evaluate_answer ::
  "(ustring \<Rightarrow> ustring) \<Rightarrow> ustring \<Rightarrow> ustring \<Rightarrow> ExerciseType \<Rightarrow> AnswerEvaluation" where
  "evaluate_answer lower user_answer expected_answer exercise_type =
     (if user_answer = [] \<or> py_strip user_answer = [] then
        \<lparr> is_correct = False, score = 0.0, feedback = ustr ''Resposta em branco.'',
          error_category = Some (ustr ''empty'') \<rparr>
      else
        (let user_norm = normalize_answer lower user_answer;
             expected_norm = normalize_answer lower expected_answer
         in if user_norm = expected_norm then
              \<lparr> is_correct = True, score = 1.0, feedback = ustr ''Perfeito!'',
                error_category = None \<rparr>
            else
              (let accepted_answers = map (normalize_answer lower) (split_on 47 expected_answer)
               in if user_norm \<in> set accepted_answers then
                    \<lparr> is_correct = True, score = 1.0, feedback = ustr ''Correto!'',
                      error_category = None \<rparr>
                  else
                    (case exercise_type of
                       BUILD_SENTENCE \<Rightarrow>
                         evaluate_build_sentence user_norm expected_norm user_answer
                           expected_answer
                     | FILL_BLANK \<Rightarrow>
                         evaluate_fill_blank user_norm accepted_answers user_answer
                           expected_answer
                     | TRANSLATION \<Rightarrow>
                         evaluate_translation user_norm accepted_answers user_answer
                           expected_answer))))"

section \<open>\<^verbatim>\<open>submit_review\<close> of \<^verbatim>\<open>app/services/review.py\<close>\<close>

definition quality_feedback :: "int \<Rightarrow> ustring" where
  "quality_feedback quality =
     (if quality = 0 then
        ustr ''N'' @ [0xE3] @ ustr ''o lembrou. O card voltar'' @ [0xE1] @ ustr '' em breve.''
      else if quality = 1 then ustr ''Errou, mas a resposta era familiar.''
      else if quality = 2 then ustr ''Errou, mas reconheceu a resposta correta.''
      else if quality = 3 then
        ustr ''Correto, mas foi dif'' @ [0xED] @ ustr ''cil. Continue praticando!''
      else if quality = 4 then
        ustr ''Bom! Com um pouco de hesita'' @ [0xE7, 0xE3] @ ustr ''o.''
      else if quality = 5 then
        ustr ''Perfeito! Resposta f'' @ [0xE1] @ ustr ''cil e r'' @ [0xE1] @ ustr ''pida.''
      else ustr ''Revis'' @ [0xE3] @ ustr ''o registrada.'')"

text \<open>The dictionary that \<^verbatim>\<open>submit_review\<close> returns; \<open>next_due\<close> is the date itself.\<close>

record review_response =
  resp_card_id :: int
  resp_was_correct :: bool
  resp_new_state :: SRSCardState
  resp_new_interval :: int
  resp_next_due :: datetime
  resp_quality :: int
  resp_feedback :: ustring

definition snapshot :: "SRSState \<Rightarrow> srs_snapshot" where
  "snapshot srs =
     \<lparr> snap_state = srs_state srs, snap_interval = srs_interval srs,
       snap_ease_factor = srs_ease_factor srs, snap_repetitions = srs_repetitions srs,
       snap_lapses = srs_lapses srs \<rparr>"

definition srs_matches :: "int \<Rightarrow> int \<Rightarrow> SRSState \<Rightarrow> bool" where
  "srs_matches cid user srs = (srs_card_id srs = cid \<and> srs_user_id srs = user)"

text \<open>The assignments of \<^verbatim>\<open>submit_review\<close> to the row (lines 178 to 188).\<close>

definition update_srs :: "SRSState \<Rightarrow> ReviewResult \<Rightarrow> datetime \<Rightarrow> SRSState" where
  "update_srs srs review_result now =
     (let srs1 = srs \<lparr> srs_state := new_state review_result,
                       srs_interval := new_interval review_result,
                       srs_ease_factor := new_ease_factor review_result,
                       srs_repetitions := new_repetitions review_result,
                       srs_lapses := new_lapses review_result,
                       srs_stability := new_stability review_result,
                       srs_due_date := Some (new_due_date review_result),
                       srs_last_reviewed_at := Some now \<rparr>
      in if was_correct review_result
         then srs1 \<lparr> srs_adaptation_penalty := max 0.0 (srs_adaptation_penalty srs1 - 0.1) \<rparr>
         else srs1)"

text \<open>
  \<^verbatim>\<open>submit_review\<close> returns the outcome and the database after the call. An
  exception leaves the session as it was when it was raised; the analysis of
  the patterns runs after the commit, and the source discards its failures.
\<close>

definition submit_review ::
  "int \<Rightarrow> int \<Rightarrow> int \<Rightarrow> int option \<Rightarrow> datetime \<Rightarrow> database
     \<Rightarrow> (py_error + review_response) \<times> database" where
  "submit_review user_id cid quality0 response_time_ms now db =
     (let quality = max 0 (min 5 quality0)
      in case find (srs_matches cid user_id) (srs_states db) of
           None \<Rightarrow> (Inl (ValueError cid), db)
         | Some srs \<Rightarrow>
             (let state_before = snapshot srs
              in case calculate_next_review quality (srs_state srs) (srs_interval srs)
                        (srs_ease_factor srs) (srs_repetitions srs) (srs_lapses srs)
                        (srs_stability srs) (srs_adaptation_penalty srs) 0 now of
                   Inl e \<Rightarrow> (Inl e, db)
                 | Inr review_result \<Rightarrow>
                     (let srs' = update_srs srs review_result now;
                          state_after = snapshot srs';
                          log = \<lparr> log_card_id = cid, log_user_id = user_id,
                                  log_quality = quality,
                                  log_response_time_ms = response_time_ms,
                                  log_was_correct = was_correct review_result,
                                  log_srs_state_before = state_before,
                                  log_srs_state_after = state_after,
                                  log_reviewed_at = now \<rparr>;
                          db1 = db \<lparr> srs_states :=
                                       update_first (srs_matches cid user_id) (\<lambda>_. srs')
                                         (srs_states db),
                                     review_logs := review_logs db @ [log] \<rparr>;
                          (patterns, db2) = analyze_and_update_patterns user_id now db1
                      in (Inr \<lparr> resp_card_id = cid,
                                resp_was_correct = was_correct review_result,
                                resp_new_state = new_state review_result,
                                resp_new_interval = new_interval review_result,
                                resp_next_due = new_due_date review_result,
                                resp_quality = quality,
                                resp_feedback = quality_feedback quality \<rparr>,
                          db2))))"

text \<open>A sequence of submissions, each on the database that the one before left.\<close>

record submission =
  subm_user_id :: int
  subm_card_id :: int
  subm_quality :: int
  subm_response_time_ms :: "int option"
  subm_now :: datetime

fun submit_reviews :: "submission list \<Rightarrow> database \<Rightarrow> database" where
  "submit_reviews [] db = db"
| "submit_reviews (x # xs) db =
     submit_reviews xs
       (snd (submit_review (subm_user_id x) (subm_card_id x) (subm_quality x)
               (subm_response_time_ms x) (subm_now x) db))"

section \<open>Notions used to state the properties\<close>

text \<open>The ease factors of the scheduling records, in table order.\<close>

definition ease_factors :: "database \<Rightarrow> real list" where
  "ease_factors db = map srs_ease_factor (srs_states db)"

definition ease_ok :: "real \<Rightarrow> bool" where
  "ease_ok e = (1.3 \<le> e \<and> e \<le> 3.5)"

text \<open>
  The database that \<^verbatim>\<open>analyze_and_update_patterns\<close> holds after its first half,
  the analysis of the review log.
\<close>

definition after_review_analysis :: "int \<Rightarrow> datetime \<Rightarrow> database \<Rightarrow> database" where
  "after_review_analysis u n db =
     (if MIN_REVIEWS_FOR_ANALYSIS \<le> length (recent_reviews_of u n db)
      then snd (analyze_grammar_errors u (recent_reviews_of u n db) n
                  (snd (analyze_vocab_errors u (recent_reviews_of u n db) n db)))
      else db)"

text \<open>The patterns of one type, in table order.\<close>

definition patterns_of_type :: "PatternType \<Rightarrow> database \<Rightarrow> ErrorPattern list" where
  "patterns_of_type t db = filter (\<lambda>p. pat_pattern_type p = t) (error_patterns db)"

text \<open>
  The samples of a category and its error rate, as each analysis counts them:
  the reviews of the cards of one type, the submissions to the BuildSentence
  exercises, and the share of them that is incorrect.
\<close>

definition review_samples :: "CardType \<Rightarrow> ReviewLog list \<Rightarrow> database \<Rightarrow> ReviewLog list" where
  "review_samples ct reviews db =
     filter (\<lambda>r. get_card_type (log_card_id r) db = Some ct) reviews"

definition review_error_rate :: "CardType \<Rightarrow> ReviewLog list \<Rightarrow> database \<Rightarrow> real" where
  "review_error_rate ct reviews db =
     real (length (filter (\<lambda>r. \<not> log_was_correct r) (review_samples ct reviews db)))
       / real (length (review_samples ct reviews db))"

definition structure_samples ::
  "ExerciseSubmission list \<Rightarrow> database \<Rightarrow> ExerciseSubmission list" where
  "structure_samples submissions db =
     filter (\<lambda>s. get_exercise_type (sub_exercise_id s) db = Some BUILD_SENTENCE) submissions"

definition structure_error_rate :: "ExerciseSubmission list \<Rightarrow> database \<Rightarrow> real" where
  "structure_error_rate submissions db =
     real (length (filter (\<lambda>s. \<not> sub_is_correct s) (structure_samples submissions db)))
       / real (length (structure_samples submissions db))"

text \<open>
  The detections on record for a type: every upsert of a pattern adds one, as a
  new pattern with the count 1 or as one more on the count of an existing one.
\<close>

definition detections :: "PatternType \<Rightarrow> database \<Rightarrow> int" where
  "detections t db = sum_list (map pat_count (patterns_of_type t db))"

text \<open>The set of the words of a normalized answer.\<close>

definition word_set :: "(ustring \<Rightarrow> ustring) \<Rightarrow> ustring \<Rightarrow> ustring set" where
  "word_set lower text = set (py_split (normalize_answer lower text))"

subsection \<open>Example data\<close>

definition example_srs :: SRSState where
  "example_srs =
     \<lparr> srs_card_id = 7, srs_user_id = 1, srs_interval = 10, srs_ease_factor = 2.5,
       srs_repetitions = 3, srs_lapses = 0, srs_state = REVIEW, srs_due_date = Some 0,
       srs_last_reviewed_at = None, srs_stability = 8, srs_adaptation_penalty = 0 \<rparr>"

definition example_db :: database where
  "example_db =
     \<lparr> srs_states = [example_srs], review_logs = [],
       cards = [\<lparr> card_id = 7, card_type = VOCAB \<rparr>], exercises = [],
       exercise_submissions = [], error_patterns = [] \<rparr>"

definition resolved_pattern :: ErrorPattern where
  "resolved_pattern =
     \<lparr> pat_user_id = 1, pat_pattern_type = VOCAB_WEAKNESS,
       pat_description = VocabDescription 0.5, pat_count = 3, pat_severity = 0.6,
       pat_items_affected = {7}, pat_is_active = False,
       pat_first_detected_at = 10, pat_last_seen_at = 20 \<rparr>"

definition resolved_db :: database where
  "resolved_db = example_db \<lparr> error_patterns := [resolved_pattern] \<rparr>"

text \<open>
  Five reviews of learner 1 inside the window: one of a vocabulary card, rated
  incorrect, and four of a phrase card.
\<close>

definition review_of :: "int \<Rightarrow> bool \<Rightarrow> datetime \<Rightarrow> ReviewLog" where
  "review_of cid correct t =
     \<lparr> log_card_id = cid, log_user_id = 1, log_quality = (if correct then 4 else 1),
       log_response_time_ms = None, log_was_correct = correct,
       log_srs_state_before = snapshot example_srs,
       log_srs_state_after = snapshot example_srs, log_reviewed_at = t \<rparr>"

definition gate_db :: database where
  "gate_db =
     \<lparr> srs_states = [example_srs],
       review_logs = [review_of 7 False 100, review_of 8 True 200, review_of 8 True 300,
                      review_of 8 True 400, review_of 8 True 500],
       cards = [\<lparr> card_id = 7, card_type = VOCAB \<rparr>, \<lparr> card_id = 8, card_type = PHRASE \<rparr>],
       exercises = [], exercise_submissions = [], error_patterns = [] \<rparr>"

text \<open>
  Four reviews of learner 1 inside the window, all of the vocabulary card and all
  rated incorrect.
\<close>

definition short_db :: database where
  "short_db =
     gate_db \<lparr> review_logs := [review_of 7 False 100, review_of 7 False 200,
                                 review_of 7 False 300, review_of 7 False 400] \<rparr>"

section \<open>Properties of the scheduler\<close>

lemmas srs_constants =
  EASE_FACTOR_MIN_def EASE_FACTOR_MAX_def LEARNING_STEPS_MINUTES_def
  GRADUATING_INTERVAL_DAYS_def RELEARNING_INTERVAL_DAYS_def LAPSE_THRESHOLD_def
  LAPSE_EASE_PENALTY_def ADAPTATION_PENALTY_MULTIPLIER_def

lemma py_round_of_int: "py_round (real_of_int n) = n"
  by (simp add: py_round_def)

lemma py_round_le:
  assumes "x \<le> real_of_int n"
  shows "py_round x \<le> n"
proof (cases "x = real_of_int n")
  case True
  then show ?thesis by (simp add: py_round_of_int)
next
  case False
  with assms have "x < real_of_int n" by simp
  then have "\<lfloor>x\<rfloor> < n" by (simp add: floor_less_iff)
  then show ?thesis by (simp add: py_round_def Let_def)
qed

lemma apply_adaptation_penalty_ge_1:
  "1 \<le> i \<Longrightarrow> 1 \<le> apply_adaptation_penalty i p"
  by (simp add: apply_adaptation_penalty_def Let_def)

lemma sm2_ease_factor_range:
  "1.3 \<le> sm2_ease_factor q e \<and> sm2_ease_factor q e \<le> 3.5"
  by (simp add: sm2_ease_factor_def Let_def srs_constants max_def min_def)

lemma handle_new_card_ease:
  "handle_new_card q c e l s p now = Inr r \<Longrightarrow> 1.3 \<le> e \<Longrightarrow> e \<le> 3.5 \<Longrightarrow>
   1.3 \<le> new_ease_factor r \<and> new_ease_factor r \<le> 3.5"
  by (auto simp: handle_new_card_def py_index_def srs_constants max_def split: if_splits)

lemma handle_learning_card_ease:
  "handle_learning_card q c e l s p idx now = Inr r \<Longrightarrow> 1.3 \<le> e \<Longrightarrow> e \<le> 3.5 \<Longrightarrow>
   1.3 \<le> new_ease_factor r \<and> new_ease_factor r \<le> 3.5"
  by (auto simp: handle_learning_card_def py_index_def srs_constants Let_def max_def
      split: if_splits)

lemma handle_review_card_ease:
  "1.3 \<le> e \<Longrightarrow> e \<le> 3.5 \<Longrightarrow>
   1.3 \<le> new_ease_factor (handle_review_card q c i e reps l s p now) \<and>
   new_ease_factor (handle_review_card q c i e reps l s p now) \<le> 3.5"
  by (auto simp: handle_review_card_def srs_constants Let_def max_def)

lemma handle_relearning_card_ease:
  "1.3 \<le> e \<Longrightarrow> e \<le> 3.5 \<Longrightarrow>
   1.3 \<le> new_ease_factor (handle_relearning_card q c e l s p now) \<and>
   new_ease_factor (handle_relearning_card q c e l s p now) \<le> 3.5"
  by (auto simp: handle_relearning_card_def srs_constants Let_def max_def)

lemma calculate_next_review_ease:
  assumes "calculate_next_review q st i e reps l s p idx now = Inr r"
  shows "1.3 \<le> new_ease_factor r \<and> new_ease_factor r \<le> 3.5"
proof -
  have rng: "1.3 \<le> sm2_ease_factor q e" "sm2_ease_factor q e \<le> 3.5"
    using sm2_ease_factor_range by simp_all
  show ?thesis
  proof (cases st)
    case NEW
    with assms show ?thesis
      using handle_new_card_ease [OF _ rng]
      by (simp add: calculate_next_review_def Let_def)
  next
    case LEARNING
    with assms show ?thesis
      using handle_learning_card_ease [OF _ rng]
      by (simp add: calculate_next_review_def Let_def)
  next
    case REVIEW
    with assms show ?thesis
      using handle_review_card_ease [OF rng]
      by (auto simp add: calculate_next_review_def Let_def)
  next
    case RELEARNING
    with assms show ?thesis
      using handle_relearning_card_ease [OF rng]
      by (auto simp add: calculate_next_review_def Let_def)
  qed
qed

subsection \<open>C1: a new card rated correct\<close>

text \<open>
  Claim C1 says that a New card rated correct (quality at least 3) goes to
  Learning, is due one minute after \<open>now\<close>, and keeps the ease factor it came
  with. The first two parts hold. The third does not: \<^verbatim>\<open>calculate_next_review\<close>
  applies the SM-2 update to the ease factor before it looks at the state, and
  \<^verbatim>\<open>_handle_new_card\<close> returns that updated value. At quality 5 an ease factor
  of 2.5 comes back as 2.6.
\<close>

theorem C1_new_correct_ease_counterexample:
  "calculate_next_review 5 NEW 0 2.5 0 0 1 0 0 1000 =
     Inr \<lparr> new_state = LEARNING, new_interval = 0, new_ease_factor = 2.6,
           new_repetitions = 0, new_lapses = 0, new_stability = 1,
           new_due_date = 60001000, was_correct = True \<rparr>
   \<and> new_ease_factor (projr (calculate_next_review 5 NEW 0 2.5 0 0 1 0 0 1000)) \<noteq> 2.5"
  by (simp add: calculate_next_review_def handle_new_card_def sm2_ease_factor_def
      py_index_def srs_constants timedelta_minutes_def)

text \<open>
  C1 as amended: for a New card rated correct, \<^verbatim>\<open>calculate_next_review\<close> returns
  the state Learning, the due date \<open>now\<close> plus one minute (the first learning
  step), and the ease factor after the SM-2 update, clamped to the interval
  from 1.3 to 3.5; no lapse penalty is taken from it.
\<close>

theorem C1_new_correct:
  "3 \<le> quality \<Longrightarrow>
   calculate_next_review quality NEW interval ease_factor repetitions lapses stability
       adaptation_penalty learning_step_index now =
     Inr \<lparr> new_state = LEARNING, new_interval = 0,
           new_ease_factor =
             max 1.3 (min 3.5 (ease_factor
               + (0.1 - real_of_int (5 - quality)
                          * (0.08 + real_of_int (5 - quality) * 0.02)))),
           new_repetitions = 0, new_lapses = lapses, new_stability = stability,
           new_due_date = now + timedelta_minutes 1, was_correct = True \<rparr>"
  by (simp add: calculate_next_review_def handle_new_card_def sm2_ease_factor_def
      py_index_def srs_constants)

theorem C1_new_correct_witness:
  "(3::int) \<le> 3 \<and>
   calculate_next_review 3 NEW 0 2.5 0 0 1 0 0 1000 =
     Inr \<lparr> new_state = LEARNING, new_interval = 0, new_ease_factor = 2.36,
           new_repetitions = 0, new_lapses = 0, new_stability = 1,
           new_due_date = 60001000, was_correct = True \<rparr>"
  using C1_new_correct [of 3 0 "2.5" 0 0 1 0 0 1000]
  by (simp add: timedelta_minutes_def)

subsection \<open>C2: the interval in the states Review and Relearning\<close>

text \<open>
  Claim C2 says that a result whose new state is Review or Relearning has an
  interval of at least one day. A card that is in Relearning and is rated
  incorrect again stays in Relearning with the interval 0 and is due four hours
  later: the interval 0 stands for a step within the day, as the column comment
  of \<^verbatim>\<open>SRSState.interval\<close> says.
\<close>

theorem C2_relearning_interval_counterexample:
  "calculate_next_review 2 RELEARNING 1 2.5 0 1 1 0 0 1000 =
     Inr \<lparr> new_state = RELEARNING, new_interval = 0, new_ease_factor = 1.98,
           new_repetitions = 0, new_lapses = 2, new_stability = 0.5,
           new_due_date = 14400001000, was_correct = False \<rparr>
   \<and> \<not> 1 \<le> new_interval (projr (calculate_next_review 2 RELEARNING 1 2.5 0 1 1 0 0 1000))"
  by (simp add: calculate_next_review_def handle_relearning_card_def sm2_ease_factor_def
      srs_constants timedelta_hours_def)

text \<open>
  C2 as amended: a returned result in the state Review has an interval of at
  least 1. A returned result in the state Relearning has the interval 1 when the
  card came from Review (a lapse) and the interval 0 when the card was in
  Relearning already.
\<close>

theorem C2_interval_by_state:
  assumes "calculate_next_review q st i e reps l s p idx now = Inr r"
  shows "(new_state r = REVIEW \<longrightarrow> 1 \<le> new_interval r) \<and>
         (new_state r = RELEARNING \<longrightarrow>
            (st = REVIEW \<and> new_interval r = 1) \<or> (st = RELEARNING \<and> new_interval r = 0))"
proof (cases st)
  case NEW
  with assms show ?thesis
    by (auto simp: calculate_next_review_def handle_new_card_def py_index_def Let_def
        split: if_splits)
next
  case LEARNING
  with assms show ?thesis
    using apply_adaptation_penalty_ge_1 [of GRADUATING_INTERVAL_DAYS p]
    by (auto simp: calculate_next_review_def handle_learning_card_def py_index_def Let_def
        srs_constants split: if_splits)
next
  case REVIEW
  with assms show ?thesis
    by (auto simp: calculate_next_review_def handle_review_card_def Let_def srs_constants
        split: if_splits)
next
  case RELEARNING
  with assms show ?thesis
    using apply_adaptation_penalty_ge_1 [of "RELEARNING_INTERVAL_DAYS + 1" p]
    by (auto simp: calculate_next_review_def handle_relearning_card_def Let_def
        srs_constants split: if_splits)
qed

theorem C2_interval_by_state_witness:
  "calculate_next_review 4 REVIEW 10 2.5 3 0 8 0 0 0 =
     Inr \<lparr> new_state = REVIEW, new_interval = 25, new_ease_factor = 2.5,
           new_repetitions = 4, new_lapses = 0, new_stability = 22.5,
           new_due_date = 2160000000000, was_correct = True \<rparr>
   \<and> (1::int) \<le> new_interval
        \<lparr> new_state = REVIEW, new_interval = 25, new_ease_factor = 2.5,
          new_repetitions = 4, new_lapses = 0, new_stability = 22.5,
          new_due_date = 2160000000000, was_correct = True \<rparr>"
proof -
  have h: "calculate_next_review 4 REVIEW 10 2.5 3 0 8 0 0 0 =
     Inr \<lparr> new_state = REVIEW, new_interval = 25, new_ease_factor = 2.5,
           new_repetitions = 4, new_lapses = 0, new_stability = 22.5,
           new_due_date = 2160000000000, was_correct = True \<rparr>"
    by (simp add: calculate_next_review_def handle_review_card_def sm2_ease_factor_def
        apply_adaptation_penalty_def py_round_def srs_constants timedelta_days_def)
  from C2_interval_by_state [OF h] h show ?thesis by simp
qed

subsection \<open>C5: the adaptation penalty shortens an interval\<close>

text \<open>
  Claim C5 says that \<^verbatim>\<open>_apply_adaptation_penalty\<close> never returns more than the raw
  interval, for every raw interval and every penalty between 0 and 1. The floor
  of one day breaks this below 1: a raw interval of 0 days with the penalty 0.5
  comes back as 1.
\<close>

theorem C5_penalty_floor_counterexample:
  "apply_adaptation_penalty 0 0.5 = 1 \<and> \<not> apply_adaptation_penalty 0 0.5 \<le> 0"
  by (simp add: apply_adaptation_penalty_def srs_constants py_round_def)

text \<open>
  C5 as amended: for every raw interval of at least 1 day and every penalty
  between 0 and 1 the adjusted interval is at most the raw one; at the penalty
  0 the raw interval comes back unchanged, whatever it is; at the penalty 1 the
  result is the raw interval times 0.70, rounded, and then floored at 1 day.
\<close>

theorem C5_penalty_shortens:
  "(0 \<le> penalty \<and> penalty \<le> 1 \<and> 1 \<le> raw \<longrightarrow> apply_adaptation_penalty raw penalty \<le> raw)
   \<and> apply_adaptation_penalty raw 0 = raw
   \<and> apply_adaptation_penalty raw 1 = max 1 (py_round (real_of_int raw * 0.70))"
proof (intro conjI impI)
  assume a: "0 \<le> penalty \<and> penalty \<le> 1 \<and> 1 \<le> raw"
  have "real_of_int raw * (1.0 - penalty * (1.0 - 0.70)) \<le> real_of_int raw * 1"
    using a by (intro mult_left_mono) auto
  then have "py_round (real_of_int raw * (1.0 - penalty * (1.0 - 0.70))) \<le> raw"
    by (intro py_round_le) simp
  then show "apply_adaptation_penalty raw penalty \<le> raw"
    using a by (simp add: apply_adaptation_penalty_def srs_constants Let_def)
next
  show "apply_adaptation_penalty raw 0 = raw"
    by (simp add: apply_adaptation_penalty_def)
next
  show "apply_adaptation_penalty raw 1 = max 1 (py_round (real_of_int raw * 0.70))"
    by (simp add: apply_adaptation_penalty_def srs_constants)
qed

theorem C5_penalty_shortens_witness:
  "((0::real) \<le> 0.5 \<and> (0.5::real) \<le> 1 \<and> (1::int) \<le> 10)
   \<and> apply_adaptation_penalty 10 0.5 \<le> 10
   \<and> apply_adaptation_penalty 10 0 = 10
   \<and> apply_adaptation_penalty 10 1 = 7"
  using C5_penalty_shortens [where penalty = "0.5" and raw = 10]
  by (simp add: py_round_def)

subsection \<open>C6: a lapse of a card in Review\<close>

text \<open>
  Claim C6 says that a Review card rated incorrect goes to Relearning with one
  more lapse, the interval 1, no repetitions, the stability halved with the
  floor 0.5, and the ease factor it came with less 0.20, floored at 1.3. All
  but the last hold. The ease factor that \<^verbatim>\<open>_handle_review_card\<close> lowers by 0.20
  is the one that \<^verbatim>\<open>calculate_next_review\<close> has already put through the SM-2
  update: at quality 2 an ease factor of 2.5 comes back as 1.98, and 2.5 less
  0.20 is 2.3.
\<close>

theorem C6_lapse_ease_counterexample:
  "calculate_next_review 2 REVIEW 10 2.5 3 0 8 0 0 0 =
     Inr \<lparr> new_state = RELEARNING, new_interval = 1, new_ease_factor = 1.98,
           new_repetitions = 0, new_lapses = 1, new_stability = 4,
           new_due_date = 86400000000, was_correct = False \<rparr>
   \<and> new_ease_factor (projr (calculate_next_review 2 REVIEW 10 2.5 3 0 8 0 0 0))
       \<noteq> max 1.3 (2.5 - 0.20)"
  by (simp add: calculate_next_review_def handle_review_card_def sm2_ease_factor_def
      srs_constants Let_def timedelta_days_def)

text \<open>
  C6 as amended: for a Review card rated incorrect (quality below 3),
  \<^verbatim>\<open>calculate_next_review\<close> returns the state Relearning, the lapses plus 1, the
  interval 1 day, no repetitions, the stability \<open>max 0.5 (stability * 0.5)\<close>, and
  the ease factor after the SM-2 update (clamped to 1.3 and 3.5) less 0.20,
  floored at 1.3.
\<close>

theorem C6_review_lapse:
  "quality < 3 \<Longrightarrow>
   calculate_next_review quality REVIEW interval ease_factor repetitions lapses stability
       adaptation_penalty learning_step_index now =
     Inr \<lparr> new_state = RELEARNING, new_interval = 1,
           new_ease_factor =
             max 1.3
               (max 1.3 (min 3.5 (ease_factor
                  + (0.1 - real_of_int (5 - quality)
                             * (0.08 + real_of_int (5 - quality) * 0.02))))
                - 0.20),
           new_repetitions = 0, new_lapses = lapses + 1,
           new_stability = max 0.5 (stability * 0.5),
           new_due_date = now + timedelta_days 1, was_correct = False \<rparr>"
  by (simp add: calculate_next_review_def handle_review_card_def sm2_ease_factor_def
      srs_constants Let_def)

theorem C6_review_lapse_witness:
  "(1::int) < 3 \<and>
   calculate_next_review 1 REVIEW 10 2.5 3 0 8 0 0 0 =
     Inr \<lparr> new_state = RELEARNING, new_interval = 1, new_ease_factor = 1.76,
           new_repetitions = 0, new_lapses = 1, new_stability = 4,
           new_due_date = 86400000000, was_correct = False \<rparr>"
  using C6_review_lapse [of 1 10 "2.5" 3 0 8 0 0 0]
  by (simp add: timedelta_days_def)

subsection \<open>C7: the urgency score\<close>

text \<open>
  Claim C7: the urgency score of a card is the priority of its state (100 for
  Relearning, 50 for Learning, 10 for Review, 1 for New), plus twice the hours
  of delay when that is positive, plus five times the lapses. A card with no
  due date, or one that is not yet due, gets nothing for delay. With the state
  and the lapses fixed, a card that has been due for longer never scores less.
\<close>

theorem C7_urgency_score:
  "state_priority RELEARNING = 100 \<and> state_priority LEARNING = 50
   \<and> state_priority REVIEW = 10 \<and> state_priority NEW = 1
   \<and> get_card_urgency_score None st l now = state_priority st + real_of_int l * 5
   \<and> get_card_urgency_score (Some d) st l now =
       state_priority st + max 0 (real_of_int (now - d) / 1000000 / 3600 * 2)
         + real_of_int l * 5
   \<and> (now \<le> d \<longrightarrow>
        get_card_urgency_score (Some d) st l now = state_priority st + real_of_int l * 5)
   \<and> (now - d2 \<le> now - d1 \<longrightarrow>
        get_card_urgency_score (Some d2) st l now
          \<le> get_card_urgency_score (Some d1) st l now)
   \<and> get_card_urgency_score None st l now \<le> get_card_urgency_score (Some d) st l now"
  by (simp add: get_card_urgency_score_def state_priority_def total_seconds_def max_def)

theorem C7_urgency_score_witness:
  "((1000::int) \<le> 2000) \<and> (3600000000 - (3600000000::int) \<le> 3600000000 - 0)
   \<and> get_card_urgency_score (Some 2000) REVIEW 2 1000 = 20
   \<and> get_card_urgency_score (Some 0) RELEARNING 1 3600000000 = 107
   \<and> get_card_urgency_score (Some 3600000000) RELEARNING 1 3600000000
        \<le> get_card_urgency_score (Some 0) RELEARNING 1 3600000000"
  using C7_urgency_score [where st = REVIEW and l = 2 and now = 1000 and d = 2000]
    C7_urgency_score [where st = RELEARNING and l = 1 and now = 3600000000 and d = 0
      and ?d1.0 = 0 and ?d2.0 = 3600000000]
  by simp

section \<open>Properties of the tables\<close>

lemma update_first_nth_unchanged:
  "i < length xs \<Longrightarrow> \<not> P (xs ! i) \<Longrightarrow> update_first P f xs ! i = xs ! i"
proof (induction xs arbitrary: i)
  case Nil
  then show ?case by simp
next
  case (Cons x xs)
  then show ?case by (cases i) auto
qed

lemma update_first_list_all:
  "list_all Q xs \<Longrightarrow> Q y \<Longrightarrow> list_all Q (update_first P (\<lambda>_. y) xs)"
  by (induction xs) auto

lemma upsert_pattern_frame:
  "srs_states (snd (upsert_pattern u t d a n db)) = srs_states db"
  "review_logs (snd (upsert_pattern u t d a n db)) = review_logs db"
  "cards (snd (upsert_pattern u t d a n db)) = cards db"
  "exercises (snd (upsert_pattern u t d a n db)) = exercises db"
  "exercise_submissions (snd (upsert_pattern u t d a n db)) = exercise_submissions db"
  by (simp_all add: upsert_pattern_def Let_def split: option.splits)

lemma penalise_rows_ease:
  "map srs_ease_factor (penalise_rows ids p xs) = map srs_ease_factor xs"
  by (induction ids p xs rule: penalise_rows.induct) auto

lemma apply_srs_penalty_frame:
  "ease_factors (apply_srs_penalty_to_cards ids p db) = ease_factors db"
  "error_patterns (apply_srs_penalty_to_cards ids p db) = error_patterns db"
  "exercise_submissions (apply_srs_penalty_to_cards ids p db) = exercise_submissions db"
  by (simp_all add: apply_srs_penalty_to_cards_def ease_factors_def penalise_rows_ease)

lemma ease_factors_upsert:
  "ease_factors (snd (upsert_pattern u t d a n db)) = ease_factors db"
  by (simp add: ease_factors_def upsert_pattern_frame)

text \<open>What each analysis can do to the database: nothing, or one upsert.\<close>

lemma analyze_vocab_errors_cases:
  "snd (analyze_vocab_errors u rs n db) = db \<or>
   (\<exists>d a. snd (analyze_vocab_errors u rs n db) =
      apply_srs_penalty_to_cards a 0.6 (snd (upsert_pattern u VOCAB_WEAKNESS d a n db)))"
  by (auto simp: analyze_vocab_errors_def Let_def split_beta)

lemma analyze_grammar_errors_cases:
  "snd (analyze_grammar_errors u rs n db) = db \<or>
   (\<exists>d a. snd (analyze_grammar_errors u rs n db) =
      apply_srs_penalty_to_cards a 0.5 (snd (upsert_pattern u GRAMMAR_CONFUSION d a n db)))"
  by (auto simp: analyze_grammar_errors_def Let_def split_beta)

lemma analyze_structure_errors_cases:
  "snd (analyze_structure_errors u ss n db) = db \<or>
   (\<exists>d a. snd (analyze_structure_errors u ss n db) =
      snd (upsert_pattern u STRUCTURE_CONFUSION d a n db))"
  by (auto simp: analyze_structure_errors_def Let_def split_beta)

lemma analyze_vocab_errors_frame:
  "ease_factors (snd (analyze_vocab_errors u rs n db)) = ease_factors db"
  "exercise_submissions (snd (analyze_vocab_errors u rs n db)) = exercise_submissions db"
  using analyze_vocab_errors_cases [of u rs n db]
  by (auto simp: apply_srs_penalty_frame ease_factors_upsert upsert_pattern_frame)

lemma analyze_grammar_errors_frame:
  "ease_factors (snd (analyze_grammar_errors u rs n db)) = ease_factors db"
  "exercise_submissions (snd (analyze_grammar_errors u rs n db)) = exercise_submissions db"
  using analyze_grammar_errors_cases [of u rs n db]
  by (auto simp: apply_srs_penalty_frame ease_factors_upsert upsert_pattern_frame)

lemma analyze_structure_errors_frame:
  "ease_factors (snd (analyze_structure_errors u ss n db)) = ease_factors db"
  using analyze_structure_errors_cases [of u ss n db]
  by (auto simp: ease_factors_upsert)

lemma analyze_and_update_patterns_snd:
  "snd (analyze_and_update_patterns u n db) =
     (let db1 = after_review_analysis u n db
      in if MIN_REVIEWS_FOR_ANALYSIS \<le> length (recent_submissions_of u n db1)
         then snd (analyze_structure_errors u (recent_submissions_of u n db1) n db1)
         else db1)"
  by (simp add: analyze_and_update_patterns_def after_review_analysis_def Let_def split_beta)

lemma after_review_analysis_frame:
  "ease_factors (after_review_analysis u n db) = ease_factors db"
  "exercise_submissions (after_review_analysis u n db) = exercise_submissions db"
  by (simp_all add: after_review_analysis_def analyze_vocab_errors_frame
      analyze_grammar_errors_frame)

lemma ease_factors_analyze:
  "ease_factors (snd (analyze_and_update_patterns u n db)) = ease_factors db"
  by (simp add: analyze_and_update_patterns_snd Let_def after_review_analysis_frame
      analyze_structure_errors_frame)

lemma update_srs_ease:
  "srs_ease_factor (update_srs srs r now) = new_ease_factor r"
  by (simp add: update_srs_def Let_def)

lemma submit_review_ease:
  assumes "list_all ease_ok (ease_factors db)"
  shows "list_all ease_ok (ease_factors (snd (submit_review uid cid q rt now db)))"
proof (cases "find (srs_matches cid uid) (srs_states db)")
  case None
  then show ?thesis using assms by (simp add: submit_review_def Let_def)
next
  case (Some srs)
  show ?thesis
  proof (cases "calculate_next_review (max 0 (min 5 q)) (srs_state srs)
      (srs_interval srs) (srs_ease_factor srs) (srs_repetitions srs) (srs_lapses srs)
      (srs_stability srs) (srs_adaptation_penalty srs) 0 now")
    case (Inl e)
    then show ?thesis using assms Some by (simp add: submit_review_def Let_def)
  next
    case (Inr r)
    have "ease_ok (new_ease_factor r)"
      using calculate_next_review_ease [OF Inr] by (simp add: ease_ok_def)
    then have "list_all (\<lambda>s. ease_ok (srs_ease_factor s))
        (update_first (srs_matches cid uid) (\<lambda>_. update_srs srs r now) (srs_states db))"
      using assms
      by (intro update_first_list_all)
        (simp_all add: ease_factors_def list_all_iff update_srs_ease)
    then have "list_all ease_ok (ease_factors
        (db \<lparr> srs_states := update_first (srs_matches cid uid) (\<lambda>_. update_srs srs r now)
                                (srs_states db),
               review_logs := review_logs db @ [x] \<rparr>))" for x
      by (simp add: ease_factors_def list_all_iff)
    then show ?thesis
      using Some Inr
      by (simp add: submit_review_def Let_def split_beta ease_factors_analyze)
  qed
qed

lemma submit_reviews_ease:
  "list_all ease_ok (ease_factors db) \<Longrightarrow>
   list_all ease_ok (ease_factors (submit_reviews xs db))"
  by (induction xs arbitrary: db) (simp_all add: submit_review_ease)

subsection \<open>C4: the ease factor stays between 1.3 and 3.5\<close>

text \<open>
  Claim C4: every result that \<^verbatim>\<open>calculate_next_review\<close> returns has an ease
  factor between 1.3 and 3.5, whatever the state, the quality and the ease
  factor it started from; so when every scheduling record starts in that range,
  every record is in it after any sequence of submitted reviews.
\<close>

theorem C4_ease_factor_range:
  "(calculate_next_review q st i e reps l s p idx now = Inr r \<longrightarrow>
      1.3 \<le> new_ease_factor r \<and> new_ease_factor r \<le> 3.5)
   \<and> (list_all ease_ok (ease_factors db) \<longrightarrow>
        list_all ease_ok (ease_factors (submit_reviews xs db)))"
  using calculate_next_review_ease [of q st i e reps l s p idx now r]
    submit_reviews_ease [of db xs]
  by blast

theorem C4_ease_factor_range_witness:
  "calculate_next_review 0 REVIEW 10 1.3 3 0 8 0 0 0 =
     Inr \<lparr> new_state = RELEARNING, new_interval = 1, new_ease_factor = 1.3,
           new_repetitions = 0, new_lapses = 1, new_stability = 4,
           new_due_date = 86400000000, was_correct = False \<rparr>
   \<and> list_all ease_ok (ease_factors example_db)
   \<and> list_all ease_ok
        (ease_factors
           (submit_reviews
              [\<lparr> subm_user_id = 1, subm_card_id = 7, subm_quality = 0,
                 subm_response_time_ms = None, subm_now = 1000 \<rparr>,
               \<lparr> subm_user_id = 1, subm_card_id = 7, subm_quality = 5,
                 subm_response_time_ms = Some 900, subm_now = 2000 \<rparr>]
              example_db))"
proof -
  have h: "calculate_next_review 0 REVIEW 10 1.3 3 0 8 0 0 0 =
     Inr \<lparr> new_state = RELEARNING, new_interval = 1, new_ease_factor = 1.3,
           new_repetitions = 0, new_lapses = 1, new_stability = 4,
           new_due_date = 86400000000, was_correct = False \<rparr>"
    by (simp add: calculate_next_review_def handle_review_card_def sm2_ease_factor_def
        srs_constants Let_def timedelta_days_def)
  have g: "list_all ease_ok (ease_factors example_db)"
    by (simp add: ease_factors_def example_db_def example_srs_def ease_ok_def)
  from C4_ease_factor_range [where db = example_db] g h show ?thesis by blast
qed

subsection \<open>C9: a review of a card without a scheduling record\<close>

lemma calculate_next_review_first_step:
  "\<exists>r. calculate_next_review q st i e reps l s p 0 now = Inr r"
  by (cases st) (auto simp: calculate_next_review_def handle_new_card_def
      handle_learning_card_def py_index_def Let_def srs_constants)

lemma submit_review_found:
  assumes "find (srs_matches cid uid) (srs_states db) = Some srs"
  shows "\<exists>resp db'. submit_review uid cid quality rt now db = (Inr resp, db')"
proof -
  obtain r where r: "calculate_next_review (max 0 (min 5 quality)) (srs_state srs)
      (srs_interval srs) (srs_ease_factor srs) (srs_repetitions srs) (srs_lapses srs)
      (srs_stability srs) (srs_adaptation_penalty srs) 0 now = Inr r"
    using calculate_next_review_first_step by blast
  show ?thesis
    using assms r by (simp add: submit_review_def Let_def split: prod.splits)
qed

lemma submit_review_not_found:
  assumes "find (srs_matches cid uid) (srs_states db) = None"
  shows "submit_review uid cid quality rt now db = (Inl (ValueError cid), db)"
  using assms by (simp add: submit_review_def Let_def)

text \<open>
  Claim C9: when the learner has no scheduling record for the card,
  \<^verbatim>\<open>submit_review\<close> raises the not-found error (a \<^verbatim>\<open>ValueError\<close> that names the
  card) and the database is as it was, with no record created. Whenever
  \<^verbatim>\<open>submit_review\<close> fails, it is with this error and the database is unchanged:
  the error is raised before any assignment to a record.
\<close>

theorem C9_submit_review_not_found:
  "(\<not> list_ex (srs_matches cid uid) (srs_states db) \<longrightarrow>
      submit_review uid cid quality rt now db = (Inl (ValueError cid), db))
   \<and> (fst (submit_review uid cid quality rt now db) = Inl e \<longrightarrow>
        e = ValueError cid
        \<and> \<not> list_ex (srs_matches cid uid) (srs_states db)
        \<and> snd (submit_review uid cid quality rt now db) = db)"
proof -
  have absent: "find (srs_matches cid uid) (srs_states db) = None \<longleftrightarrow>
      \<not> list_ex (srs_matches cid uid) (srs_states db)"
    by (auto simp: find_None_iff list_ex_iff)
  have raised: "find (srs_matches cid uid) (srs_states db) = None"
    if f: "fst (submit_review uid cid quality rt now db) = Inl e"
  proof (cases "find (srs_matches cid uid) (srs_states db)")
    case None
    then show ?thesis .
  next
    case (Some srs)
    from submit_review_found [OF Some, of quality rt now] f show ?thesis by auto
  qed
  show ?thesis
    using absent raised submit_review_not_found [of cid uid db quality rt now]
    by auto
qed

theorem C9_submit_review_not_found_witness:
  "\<not> list_ex (srs_matches 7 2) (srs_states example_db)
   \<and> submit_review 2 7 4 None 1000 example_db = (Inl (ValueError 7), example_db)
   \<and> fst (submit_review 2 7 4 None 1000 example_db) = Inl (ValueError 7)
   \<and> snd (submit_review 2 7 4 None 1000 example_db) = example_db"
proof -
  have h: "\<not> list_ex (srs_matches 7 2) (srs_states example_db)"
    by (simp add: example_db_def example_srs_def srs_matches_def)
  from C9_submit_review_not_found [where cid = 7 and uid = 2 and db = example_db
      and quality = 4 and rt = None and now = 1000 and e = "ValueError 7"] h
  have r: "submit_review 2 7 4 None 1000 example_db = (Inl (ValueError 7), example_db)"
    by blast
  show ?thesis
    unfolding r using h by simp
qed

subsection \<open>C10: a pattern that was deactivated is not taken up again\<close>

text \<open>
  Claim C10: \<^verbatim>\<open>_upsert_pattern\<close> looks for an active pattern of the learner and the
  type only. When every pattern of that learner and type is inactive (the one
  that was active has been deactivated), a new detection appends a fresh
  pattern with the count 1 and the severity 0.2, active, and the table before
  it, the deactivated pattern included, is as it was. In any database, an
  upsert leaves every inactive pattern as it was.
\<close>

theorem C10_upsert_skips_inactive:
  "((\<forall>p \<in> set (error_patterns db).
        pat_user_id p = uid \<and> pat_pattern_type p = ptype \<longrightarrow> \<not> pat_is_active p) \<longrightarrow>
      upsert_pattern uid ptype descr affected now db =
        (\<lparr> pat_user_id = uid, pat_pattern_type = ptype, pat_description = descr,
            pat_count = 1, pat_severity = 0.2, pat_items_affected = affected,
            pat_is_active = True, pat_first_detected_at = now, pat_last_seen_at = now \<rparr>,
         db \<lparr> error_patterns := error_patterns db @
              [\<lparr> pat_user_id = uid, pat_pattern_type = ptype, pat_description = descr,
                 pat_count = 1, pat_severity = 0.2, pat_items_affected = affected,
                 pat_is_active = True, pat_first_detected_at = now,
                 pat_last_seen_at = now \<rparr>] \<rparr>))
   \<and> (\<forall>i < length (error_patterns db).
         \<not> pat_is_active (error_patterns db ! i) \<longrightarrow>
         error_patterns (snd (upsert_pattern uid ptype descr affected now db)) ! i
           = error_patterns db ! i)"
proof -
  have fresh: "upsert_pattern uid ptype descr affected now db =
        (\<lparr> pat_user_id = uid, pat_pattern_type = ptype, pat_description = descr,
            pat_count = 1, pat_severity = 0.2, pat_items_affected = affected,
            pat_is_active = True, pat_first_detected_at = now, pat_last_seen_at = now \<rparr>,
         db \<lparr> error_patterns := error_patterns db @
              [\<lparr> pat_user_id = uid, pat_pattern_type = ptype, pat_description = descr,
                 pat_count = 1, pat_severity = 0.2, pat_items_affected = affected,
                 pat_is_active = True, pat_first_detected_at = now,
                 pat_last_seen_at = now \<rparr>] \<rparr>)"
    if none: "\<forall>p \<in> set (error_patterns db).
        pat_user_id p = uid \<and> pat_pattern_type p = ptype \<longrightarrow> \<not> pat_is_active p"
  proof -
    from none have "find (pattern_matches uid ptype) (error_patterns db) = None"
      by (auto simp: find_None_iff pattern_matches_def)
    then show ?thesis
      by (simp add: upsert_pattern_def SEVERITY_INCREMENT_def Let_def)
  qed
  have kept: "error_patterns (snd (upsert_pattern uid ptype descr affected now db)) ! i
           = error_patterns db ! i"
    if i: "i < length (error_patterns db)"
      and na: "\<not> pat_is_active (error_patterns db ! i)" for i
  proof -
    have "\<not> pattern_matches uid ptype (error_patterns db ! i)"
      using na by (simp add: pattern_matches_def)
    with i show ?thesis
      by (auto simp: upsert_pattern_def Let_def update_first_nth_unchanged nth_append
          split: option.splits)
  qed
  from fresh kept show ?thesis by blast
qed

theorem C10_upsert_skips_inactive_witness:
  "list_all (\<lambda>p. \<not> pat_is_active p) (error_patterns resolved_db)
   \<and> error_patterns
        (snd (upsert_pattern 1 VOCAB_WEAKNESS (VocabDescription 1) {8} 30 resolved_db)) =
       [resolved_pattern,
        \<lparr> pat_user_id = 1, pat_pattern_type = VOCAB_WEAKNESS,
          pat_description = VocabDescription 1, pat_count = 1, pat_severity = 0.2,
          pat_items_affected = {8}, pat_is_active = True,
          pat_first_detected_at = 30, pat_last_seen_at = 30 \<rparr>]"
proof -
  have h: "\<forall>p \<in> set (error_patterns resolved_db).
        pat_user_id p = 1 \<and> pat_pattern_type p = VOCAB_WEAKNESS \<longrightarrow> \<not> pat_is_active p"
    by (simp add: resolved_db_def resolved_pattern_def)
  from C10_upsert_skips_inactive [where db = resolved_db and uid = 1
      and ptype = VOCAB_WEAKNESS and descr = "VocabDescription 1" and affected = "{8}"
      and now = 30] h
  have "upsert_pattern 1 VOCAB_WEAKNESS (VocabDescription 1) {8} 30 resolved_db =
        (\<lparr> pat_user_id = 1, pat_pattern_type = VOCAB_WEAKNESS,
            pat_description = VocabDescription 1, pat_count = 1, pat_severity = 0.2,
            pat_items_affected = {8}, pat_is_active = True, pat_first_detected_at = 30,
            pat_last_seen_at = 30 \<rparr>,
         resolved_db \<lparr> error_patterns := error_patterns resolved_db @
              [\<lparr> pat_user_id = 1, pat_pattern_type = VOCAB_WEAKNESS,
                 pat_description = VocabDescription 1, pat_count = 1, pat_severity = 0.2,
                 pat_items_affected = {8}, pat_is_active = True,
                 pat_first_detected_at = 30, pat_last_seen_at = 30 \<rparr>] \<rparr>)"
    by blast
  then show ?thesis by (simp add: resolved_db_def resolved_pattern_def)
qed

text \<open>
  \<^verbatim>\<open>resolve_pattern_if_improved\<close> changes nothing but the flag: the patterns it
  returns are inactive, and the table differs from the one before at most in
  \<open>pat_is_active\<close>.
\<close>

lemma resolve_pattern_if_improved_flag_only:
  "list_all (\<lambda>p. \<not> pat_is_active p) (fst (resolve_pattern_if_improved uid now db))
   \<and> map (\<lambda>p. p \<lparr> pat_is_active := False \<rparr>)
         (error_patterns (snd (resolve_pattern_if_improved uid now db)))
       = map (\<lambda>p. p \<lparr> pat_is_active := False \<rparr>) (error_patterns db)"
  by (simp add: resolve_pattern_if_improved_def Let_def list_all_iff)

subsection \<open>C3: the sample size that the detector asks for\<close>

lemma update_first_filter:
  "(\<And>x. P x \<Longrightarrow> \<not> Q x \<and> \<not> Q (f x)) \<Longrightarrow> filter Q (update_first P f xs) = filter Q xs"
  by (induction xs) auto

lemma upsert_pattern_other_types:
  assumes "t' \<noteq> t"
  shows "patterns_of_type t' (snd (upsert_pattern u t d a n db)) = patterns_of_type t' db"
proof (cases "find (pattern_matches u t) (error_patterns db)")
  case None
  then show ?thesis
    using assms by (simp add: upsert_pattern_def patterns_of_type_def Let_def)
next
  case (Some existing)
  then have "pattern_matches u t existing"
    by (auto simp: find_Some_iff)
  then have ty: "pat_pattern_type existing = t"
    by (simp add: pattern_matches_def)
  have "filter (\<lambda>p. pat_pattern_type p = t')
          (update_first (pattern_matches u t) (\<lambda>_. y) (error_patterns db))
        = filter (\<lambda>p. pat_pattern_type p = t') (error_patterns db)"
    if "pat_pattern_type y = t" for y
    using assms that by (intro update_first_filter) (auto simp: pattern_matches_def)
  then show ?thesis
    using Some ty by (simp add: upsert_pattern_def patterns_of_type_def Let_def)
qed

lemma patterns_of_type_penalty:
  "patterns_of_type t (apply_srs_penalty_to_cards ids p db) = patterns_of_type t db"
  by (simp add: patterns_of_type_def apply_srs_penalty_frame)

lemma analyze_vocab_errors_other_types:
  "t \<noteq> VOCAB_WEAKNESS \<Longrightarrow>
   patterns_of_type t (snd (analyze_vocab_errors u rs n db)) = patterns_of_type t db"
  using analyze_vocab_errors_cases [of u rs n db]
  by (auto simp: patterns_of_type_penalty upsert_pattern_other_types)

lemma analyze_grammar_errors_other_types:
  "t \<noteq> GRAMMAR_CONFUSION \<Longrightarrow>
   patterns_of_type t (snd (analyze_grammar_errors u rs n db)) = patterns_of_type t db"
  using analyze_grammar_errors_cases [of u rs n db]
  by (auto simp: patterns_of_type_penalty upsert_pattern_other_types)

lemma analyze_structure_errors_other_types:
  "t \<noteq> STRUCTURE_CONFUSION \<Longrightarrow>
   patterns_of_type t (snd (analyze_structure_errors u ss n db)) = patterns_of_type t db"
  using analyze_structure_errors_cases [of u ss n db]
  by (auto simp: upsert_pattern_other_types)

lemma after_review_analysis_structure:
  "patterns_of_type STRUCTURE_CONFUSION (after_review_analysis u n db)
     = patterns_of_type STRUCTURE_CONFUSION db"
  by (simp add: after_review_analysis_def analyze_vocab_errors_other_types
      analyze_grammar_errors_other_types)

lemma recent_submissions_of_after_review_analysis:
  "recent_submissions_of u n (after_review_analysis u n db) = recent_submissions_of u n db"
  by (simp add: recent_submissions_of_def after_review_analysis_frame)

lemmas detector_defs =
  analyze_and_update_patterns_def analyze_vocab_errors_def analyze_grammar_errors_def
  analyze_structure_errors_def recent_reviews_of_def recent_submissions_of_def
  upsert_pattern_def apply_srs_penalty_to_cards_def get_card_type_def query_card_def
  pattern_matches_def MIN_REVIEWS_FOR_ANALYSIS_def ANALYSIS_WINDOW_DAYS_def
  VOCAB_ERROR_THRESHOLD_def GRAMMAR_ERROR_THRESHOLD_def SEVERITY_INCREMENT_def
  timedelta_days_def

lemma vocab_scan_fst:
  "fst (vocab_scan db rs) =
     filter (\<lambda>r. \<not> log_was_correct r) (review_samples VOCAB rs db)"
  by (induction rs)
    (auto simp: review_samples_def get_card_type_def split_beta split: option.splits)

lemma grammar_scan_fst:
  "fst (grammar_scan db rs) =
     filter (\<lambda>r. \<not> log_was_correct r) (review_samples GRAMMAR rs db)"
  by (induction rs) (auto simp: review_samples_def split_beta)

lemma structure_scan_fst:
  "fst (structure_scan db ss) =
     filter (\<lambda>s. \<not> sub_is_correct s) (structure_samples ss db)"
  by (induction ss)
    (auto simp: structure_samples_def get_exercise_type_def split_beta split: option.splits)

lemma update_first_sum:
  "find P xs = Some e \<Longrightarrow> (\<And>x. P x \<Longrightarrow> Q x) \<Longrightarrow> Q y \<Longrightarrow>
   sum_list (map f (filter Q (update_first P (\<lambda>_. y) xs)))
     = sum_list (map f (filter Q xs)) - f e + (f y :: int)"
  by (induction xs) (auto split: if_splits)

lemma detections_upsert_same:
  "detections t (snd (upsert_pattern u t d a n db)) = detections t db + 1"
proof (cases "find (pattern_matches u t) (error_patterns db)")
  case None
  then show ?thesis
    by (simp add: upsert_pattern_def detections_def patterns_of_type_def Let_def)
next
  case (Some existing)
  then have "pattern_matches u t existing"
    by (auto simp: find_Some_iff)
  then have ty: "pat_pattern_type existing = t"
    by (simp add: pattern_matches_def)
  have "sum_list (map pat_count (filter (\<lambda>p. pat_pattern_type p = t)
          (update_first (pattern_matches u t) (\<lambda>_. y) (error_patterns db))))
        = sum_list (map pat_count (filter (\<lambda>p. pat_pattern_type p = t) (error_patterns db)))
            - pat_count existing + pat_count y"
    if "pat_pattern_type y = t" for y
    using Some that by (intro update_first_sum) (auto simp: pattern_matches_def)
  then show ?thesis
    using Some ty by (simp add: upsert_pattern_def detections_def patterns_of_type_def Let_def)
qed

lemma detections_cong:
  "patterns_of_type t db' = patterns_of_type t db \<Longrightarrow> detections t db' = detections t db"
  by (simp add: detections_def)

lemma cards_frame:
  "cards (apply_srs_penalty_to_cards ids p db) = cards db"
  "exercises (apply_srs_penalty_to_cards ids p db) = exercises db"
  by (simp_all add: apply_srs_penalty_to_cards_def)

lemma analyze_vocab_errors_cards:
  "cards (snd (analyze_vocab_errors u rs n db)) = cards db"
  "exercises (snd (analyze_vocab_errors u rs n db)) = exercises db"
  using analyze_vocab_errors_cases [of u rs n db]
  by (auto simp: cards_frame upsert_pattern_frame)

lemma analyze_grammar_errors_cards:
  "cards (snd (analyze_grammar_errors u rs n db)) = cards db"
  "exercises (snd (analyze_grammar_errors u rs n db)) = exercises db"
  using analyze_grammar_errors_cases [of u rs n db]
  by (auto simp: cards_frame upsert_pattern_frame)

lemma review_samples_cards:
  "cards db' = cards db \<Longrightarrow> review_samples ct rs db' = review_samples ct rs db"
  by (simp add: review_samples_def get_card_type_def query_card_def)

lemma structure_samples_exercises:
  "exercises db' = exercises db \<Longrightarrow> structure_samples ss db' = structure_samples ss db"
  by (simp add: structure_samples_def get_exercise_type_def query_exercise_def)



lemma detections_penalty:
  "detections t (apply_srs_penalty_to_cards ids p db) = detections t db"
  by (simp add: detections_def patterns_of_type_penalty)

lemma analyze_vocab_errors_snd:
  "snd (analyze_vocab_errors u rs n db) =
     (if review_samples VOCAB rs db \<noteq> []
         \<and> VOCAB_ERROR_THRESHOLD \<le> review_error_rate VOCAB rs db
      then apply_srs_penalty_to_cards (set (snd (vocab_scan db rs))) 0.6
             (snd (upsert_pattern u VOCAB_WEAKNESS
                     (VocabDescription (review_error_rate VOCAB rs db))
                     (set (snd (vocab_scan db rs))) n db))
      else db)"
  unfolding analyze_vocab_errors_def review_error_rate_def
  by (simp add: Let_def split_beta vocab_scan_fst review_samples_def [symmetric])

lemma analyze_grammar_errors_snd:
  "snd (analyze_grammar_errors u rs n db) =
     (if review_samples GRAMMAR rs db \<noteq> []
         \<and> GRAMMAR_ERROR_THRESHOLD \<le> review_error_rate GRAMMAR rs db
      then apply_srs_penalty_to_cards (set (snd (grammar_scan db rs))) 0.5
             (snd (upsert_pattern u GRAMMAR_CONFUSION
                     (GrammarDescription (review_error_rate GRAMMAR rs db))
                     (set (snd (grammar_scan db rs))) n db))
      else db)"
  unfolding analyze_grammar_errors_def review_error_rate_def
  by (simp add: Let_def split_beta grammar_scan_fst review_samples_def [symmetric])

lemma analyze_structure_errors_snd:
  "snd (analyze_structure_errors u ss n db) =
     (if structure_samples ss db \<noteq> []
         \<and> STRUCTURE_ERROR_THRESHOLD \<le> structure_error_rate ss db
      then snd (upsert_pattern u STRUCTURE_CONFUSION
                  (StructureDescription (structure_error_rate ss db))
                  (set (snd (structure_scan db ss))) n db)
      else db)"
  unfolding analyze_structure_errors_def structure_error_rate_def
  by (simp add: Let_def split_beta structure_scan_fst structure_samples_def [symmetric])

lemma analyze_vocab_errors_detections:
  "detections VOCAB_WEAKNESS (snd (analyze_vocab_errors u rs n db)) =
     detections VOCAB_WEAKNESS db
       + (if review_samples VOCAB rs db \<noteq> []
             \<and> VOCAB_ERROR_THRESHOLD \<le> review_error_rate VOCAB rs db then 1 else 0)"
  by (simp add: analyze_vocab_errors_snd detections_penalty detections_upsert_same)

lemma analyze_grammar_errors_detections:
  "detections GRAMMAR_CONFUSION (snd (analyze_grammar_errors u rs n db)) =
     detections GRAMMAR_CONFUSION db
       + (if review_samples GRAMMAR rs db \<noteq> []
             \<and> GRAMMAR_ERROR_THRESHOLD \<le> review_error_rate GRAMMAR rs db then 1 else 0)"
  by (simp add: analyze_grammar_errors_snd detections_penalty detections_upsert_same)

lemma analyze_structure_errors_detections:
  "detections STRUCTURE_CONFUSION (snd (analyze_structure_errors u ss n db)) =
     detections STRUCTURE_CONFUSION db
       + (if structure_samples ss db \<noteq> []
             \<and> STRUCTURE_ERROR_THRESHOLD \<le> structure_error_rate ss db then 1 else 0)"
  by (simp add: analyze_structure_errors_snd detections_upsert_same)


lemma review_error_rate_cards:
  "cards db' = cards db \<Longrightarrow> review_error_rate ct rs db' = review_error_rate ct rs db"
  by (simp add: review_error_rate_def review_samples_def get_card_type_def query_card_def)

lemma structure_error_rate_exercises:
  "exercises db' = exercises db \<Longrightarrow> structure_error_rate ss db' = structure_error_rate ss db"
  by (simp add: structure_error_rate_def structure_samples_def get_exercise_type_def
      query_exercise_def)

lemma after_review_analysis_exercises:
  "exercises (after_review_analysis u n db) = exercises db"
  by (simp add: after_review_analysis_def analyze_vocab_errors_cards
      analyze_grammar_errors_cards)

lemma after_review_analysis_vocab:
  "detections VOCAB_WEAKNESS (after_review_analysis u n db) =
     detections VOCAB_WEAKNESS db
       + (if 5 \<le> length (recent_reviews_of u n db)
             \<and> review_samples VOCAB (recent_reviews_of u n db) db \<noteq> []
             \<and> 0.40 \<le> review_error_rate VOCAB (recent_reviews_of u n db) db
          then 1 else 0)"
  by (simp add: after_review_analysis_def MIN_REVIEWS_FOR_ANALYSIS_def
      VOCAB_ERROR_THRESHOLD_def
      detections_cong [OF analyze_grammar_errors_other_types]
      analyze_vocab_errors_detections)

lemma after_review_analysis_grammar:
  "detections GRAMMAR_CONFUSION (after_review_analysis u n db) =
     detections GRAMMAR_CONFUSION db
       + (if 5 \<le> length (recent_reviews_of u n db)
             \<and> review_samples GRAMMAR (recent_reviews_of u n db) db \<noteq> []
             \<and> 0.35 \<le> review_error_rate GRAMMAR (recent_reviews_of u n db) db
          then 1 else 0)"
  by (simp add: after_review_analysis_def MIN_REVIEWS_FOR_ANALYSIS_def
      GRAMMAR_ERROR_THRESHOLD_def
      analyze_grammar_errors_detections
      review_samples_cards [OF analyze_vocab_errors_cards(1)]
      review_error_rate_cards [OF analyze_vocab_errors_cards(1)]
      detections_cong [OF analyze_vocab_errors_other_types])

lemma after_review_analysis_vocab_unchanged:
  assumes "\<not> (5 \<le> length (recent_reviews_of u n db)
       \<and> review_samples VOCAB (recent_reviews_of u n db) db \<noteq> []
       \<and> 0.40 \<le> review_error_rate VOCAB (recent_reviews_of u n db) db)"
  shows "patterns_of_type VOCAB_WEAKNESS (after_review_analysis u n db)
     = patterns_of_type VOCAB_WEAKNESS db"
proof (cases "5 \<le> length (recent_reviews_of u n db)")
  case False
  then show ?thesis
    by (simp add: after_review_analysis_def MIN_REVIEWS_FOR_ANALYSIS_def)
next
  case True
  with assms have "\<not> (review_samples VOCAB (recent_reviews_of u n db) db \<noteq> []
       \<and> VOCAB_ERROR_THRESHOLD \<le> review_error_rate VOCAB (recent_reviews_of u n db) db)"
    by (simp add: VOCAB_ERROR_THRESHOLD_def)
  then have "snd (analyze_vocab_errors u (recent_reviews_of u n db) n db) = db"
    by (simp only: analyze_vocab_errors_snd if_False)
  with True show ?thesis
    by (simp add: after_review_analysis_def MIN_REVIEWS_FOR_ANALYSIS_def
        analyze_grammar_errors_other_types)
qed

lemma after_review_analysis_grammar_unchanged:
  assumes "\<not> (5 \<le> length (recent_reviews_of u n db)
       \<and> review_samples GRAMMAR (recent_reviews_of u n db) db \<noteq> []
       \<and> 0.35 \<le> review_error_rate GRAMMAR (recent_reviews_of u n db) db)"
  shows "patterns_of_type GRAMMAR_CONFUSION (after_review_analysis u n db)
     = patterns_of_type GRAMMAR_CONFUSION db"
proof (cases "5 \<le> length (recent_reviews_of u n db)")
  case False
  then show ?thesis
    by (simp add: after_review_analysis_def MIN_REVIEWS_FOR_ANALYSIS_def)
next
  case True
  let ?rr = "recent_reviews_of u n db"
  let ?dbv = "snd (analyze_vocab_errors u ?rr n db)"
  have same: "review_samples GRAMMAR ?rr ?dbv = review_samples GRAMMAR ?rr db"
    "review_error_rate GRAMMAR ?rr ?dbv = review_error_rate GRAMMAR ?rr db"
    by (rule review_samples_cards review_error_rate_cards,
        rule analyze_vocab_errors_cards)+
  from True assms have "\<not> (review_samples GRAMMAR ?rr ?dbv \<noteq> []
       \<and> GRAMMAR_ERROR_THRESHOLD \<le> review_error_rate GRAMMAR ?rr ?dbv)"
    by (simp add: GRAMMAR_ERROR_THRESHOLD_def same)
  then have "snd (analyze_grammar_errors u ?rr n ?dbv) = ?dbv"
    by (simp only: analyze_grammar_errors_snd if_False)
  with True show ?thesis
    by (simp add: after_review_analysis_def MIN_REVIEWS_FOR_ANALYSIS_def
        analyze_vocab_errors_other_types)
qed


lemma analyze_and_update_patterns_other:
  "t \<noteq> STRUCTURE_CONFUSION \<Longrightarrow>
   patterns_of_type t (snd (analyze_and_update_patterns u n db))
     = patterns_of_type t (after_review_analysis u n db)"
  by (simp add: analyze_and_update_patterns_snd Let_def analyze_structure_errors_other_types)

lemma analyze_and_update_patterns_structure:
  "detections STRUCTURE_CONFUSION (snd (analyze_and_update_patterns u n db)) =
     detections STRUCTURE_CONFUSION db
       + (if 5 \<le> length (recent_submissions_of u n db)
             \<and> structure_samples (recent_submissions_of u n db) db \<noteq> []
             \<and> 0.45 \<le> structure_error_rate (recent_submissions_of u n db) db
          then 1 else 0)"
  by (simp add: analyze_and_update_patterns_snd Let_def MIN_REVIEWS_FOR_ANALYSIS_def
      STRUCTURE_ERROR_THRESHOLD_def recent_submissions_of_after_review_analysis
      analyze_structure_errors_detections
      structure_samples_exercises [OF after_review_analysis_exercises]
      structure_error_rate_exercises [OF after_review_analysis_exercises]
      detections_cong [OF after_review_analysis_structure])

lemma analyze_and_update_patterns_structure_unchanged:
  assumes "\<not> (5 \<le> length (recent_submissions_of u n db)
       \<and> structure_samples (recent_submissions_of u n db) db \<noteq> []
       \<and> 0.45 \<le> structure_error_rate (recent_submissions_of u n db) db)"
  shows "patterns_of_type STRUCTURE_CONFUSION (snd (analyze_and_update_patterns u n db))
     = patterns_of_type STRUCTURE_CONFUSION db"
proof (cases "5 \<le> length (recent_submissions_of u n db)")
  case False
  then show ?thesis
    by (simp add: analyze_and_update_patterns_snd Let_def MIN_REVIEWS_FOR_ANALYSIS_def
        recent_submissions_of_after_review_analysis after_review_analysis_structure)
next
  case True
  let ?ss = "recent_submissions_of u n db"
  let ?db1 = "after_review_analysis u n db"
  from True assms have "\<not> (structure_samples ?ss ?db1 \<noteq> []
       \<and> STRUCTURE_ERROR_THRESHOLD \<le> structure_error_rate ?ss ?db1)"
    by (simp add: STRUCTURE_ERROR_THRESHOLD_def
        structure_samples_exercises [OF after_review_analysis_exercises]
        structure_error_rate_exercises [OF after_review_analysis_exercises])
  then have "snd (analyze_structure_errors u ?ss n ?db1) = ?db1"
    by (simp only: analyze_structure_errors_snd if_False)
  with True show ?thesis
    by (simp add: analyze_and_update_patterns_snd Let_def MIN_REVIEWS_FOR_ANALYSIS_def
        recent_submissions_of_after_review_analysis after_review_analysis_structure)
qed

lemma upsert_pattern_fst:
  "pat_user_id (fst (upsert_pattern u t d a n db)) = u
   \<and> pat_pattern_type (fst (upsert_pattern u t d a n db)) = t
   \<and> pat_is_active (fst (upsert_pattern u t d a n db))"
proof (cases "find (pattern_matches u t) (error_patterns db)")
  case None
  then show ?thesis by (simp add: upsert_pattern_def Let_def)
next
  case (Some existing)
  then have "pattern_matches u t existing"
    by (auto simp: find_Some_iff)
  with Some show ?thesis
    by (simp add: upsert_pattern_def Let_def pattern_matches_def)
qed

lemma analyze_vocab_errors_fst:
  "map (\<lambda>p. (pat_user_id p, pat_pattern_type p, pat_is_active p))
       (fst (analyze_vocab_errors u rs n db)) =
     (if review_samples VOCAB rs db \<noteq> []
         \<and> VOCAB_ERROR_THRESHOLD \<le> review_error_rate VOCAB rs db
      then [(u, VOCAB_WEAKNESS, True)] else [])"
  unfolding analyze_vocab_errors_def review_error_rate_def
  by (simp add: Let_def split_beta vocab_scan_fst review_samples_def [symmetric]
      upsert_pattern_fst)

lemma analyze_grammar_errors_fst:
  "map (\<lambda>p. (pat_user_id p, pat_pattern_type p, pat_is_active p))
       (fst (analyze_grammar_errors u rs n db)) =
     (if review_samples GRAMMAR rs db \<noteq> []
         \<and> GRAMMAR_ERROR_THRESHOLD \<le> review_error_rate GRAMMAR rs db
      then [(u, GRAMMAR_CONFUSION, True)] else [])"
  unfolding analyze_grammar_errors_def review_error_rate_def
  by (simp add: Let_def split_beta grammar_scan_fst review_samples_def [symmetric]
      upsert_pattern_fst)

lemma analyze_structure_errors_fst:
  "map (\<lambda>p. (pat_user_id p, pat_pattern_type p, pat_is_active p))
       (fst (analyze_structure_errors u ss n db)) =
     (if structure_samples ss db \<noteq> []
         \<and> STRUCTURE_ERROR_THRESHOLD \<le> structure_error_rate ss db
      then [(u, STRUCTURE_CONFUSION, True)] else [])"
  unfolding analyze_structure_errors_def structure_error_rate_def
  by (simp add: Let_def split_beta structure_scan_fst structure_samples_def [symmetric]
      upsert_pattern_fst)

lemma analyze_vocab_errors_fst_Nil:
  "fst (analyze_vocab_errors u rs n db) = [] \<longleftrightarrow>
     \<not> (review_samples VOCAB rs db \<noteq> []
         \<and> VOCAB_ERROR_THRESHOLD \<le> review_error_rate VOCAB rs db)"
  using arg_cong [OF analyze_vocab_errors_fst, of "\<lambda>xs. xs = []" u rs n db]
  by (simp split: if_splits)

lemma analyze_grammar_errors_fst_Nil:
  "fst (analyze_grammar_errors u rs n db) = [] \<longleftrightarrow>
     \<not> (review_samples GRAMMAR rs db \<noteq> []
         \<and> GRAMMAR_ERROR_THRESHOLD \<le> review_error_rate GRAMMAR rs db)"
  using arg_cong [OF analyze_grammar_errors_fst, of "\<lambda>xs. xs = []" u rs n db]
  by (simp split: if_splits)

lemma analyze_structure_errors_fst_Nil:
  "fst (analyze_structure_errors u ss n db) = [] \<longleftrightarrow>
     \<not> (structure_samples ss db \<noteq> []
         \<and> STRUCTURE_ERROR_THRESHOLD \<le> structure_error_rate ss db)"
  using arg_cong [OF analyze_structure_errors_fst, of "\<lambda>xs. xs = []" u ss n db]
  by (simp split: if_splits)

lemma recent_submissions_of_after_reviews:
  "recent_submissions_of u n
     (snd (analyze_grammar_errors u rs n (snd (analyze_vocab_errors u rs n db))))
   = recent_submissions_of u n db"
  by (simp add: recent_submissions_of_def analyze_grammar_errors_frame
      analyze_vocab_errors_frame)

lemma analyze_and_update_patterns_fst:
  "fst (analyze_and_update_patterns u n db) =
     (if MIN_REVIEWS_FOR_ANALYSIS \<le> length (recent_reviews_of u n db)
      then fst (analyze_vocab_errors u (recent_reviews_of u n db) n db)
           @ fst (analyze_grammar_errors u (recent_reviews_of u n db) n
                    (snd (analyze_vocab_errors u (recent_reviews_of u n db) n db)))
      else [])
     @ (if MIN_REVIEWS_FOR_ANALYSIS \<le> length (recent_submissions_of u n db)
        then fst (analyze_structure_errors u (recent_submissions_of u n db) n
                    (after_review_analysis u n db))
        else [])"
  by (simp add: analyze_and_update_patterns_def after_review_analysis_def Let_def split_beta
      recent_submissions_of_after_reviews)

lemma analyze_and_update_patterns_returns:
  "map (\<lambda>p. (pat_user_id p, pat_pattern_type p, pat_is_active p))
       (fst (analyze_and_update_patterns uid now db)) =
     (if 5 \<le> length (recent_reviews_of uid now db)
         \<and> review_samples VOCAB (recent_reviews_of uid now db) db \<noteq> []
         \<and> 0.40 \<le> review_error_rate VOCAB (recent_reviews_of uid now db) db
      then [(uid, VOCAB_WEAKNESS, True)] else [])
     @ (if 5 \<le> length (recent_reviews_of uid now db)
           \<and> review_samples GRAMMAR (recent_reviews_of uid now db) db \<noteq> []
           \<and> 0.35 \<le> review_error_rate GRAMMAR (recent_reviews_of uid now db) db
        then [(uid, GRAMMAR_CONFUSION, True)] else [])
     @ (if 5 \<le> length (recent_submissions_of uid now db)
           \<and> structure_samples (recent_submissions_of uid now db) db \<noteq> []
           \<and> 0.45 \<le> structure_error_rate (recent_submissions_of uid now db) db
        then [(uid, STRUCTURE_CONFUSION, True)] else [])"
  by (simp add: analyze_and_update_patterns_fst analyze_vocab_errors_fst
      analyze_grammar_errors_fst analyze_structure_errors_fst
      analyze_vocab_errors_fst_Nil analyze_grammar_errors_fst_Nil
      analyze_structure_errors_fst_Nil
      MIN_REVIEWS_FOR_ANALYSIS_def VOCAB_ERROR_THRESHOLD_def GRAMMAR_ERROR_THRESHOLD_def
      STRUCTURE_ERROR_THRESHOLD_def
      review_samples_cards [OF analyze_vocab_errors_cards(1)]
      review_error_rate_cards [OF analyze_vocab_errors_cards(1)]
      structure_samples_exercises [OF after_review_analysis_exercises]
      structure_error_rate_exercises [OF after_review_analysis_exercises])

lemmas sample_defs =
  recent_reviews_of_def recent_submissions_of_def review_samples_def review_error_rate_def
  get_card_type_def query_card_def ANALYSIS_WINDOW_DAYS_def timedelta_days_def
  gate_db_def short_db_def review_of_def detections_def patterns_of_type_def

text \<open>
  Claim C3 says that the detector concludes on a category (vocabulary, grammar,
  structure) only when that category has at least 5 samples in the window. The
  gate of \<^verbatim>\<open>analyze_and_update_patterns\<close> counts something else: all the reviews
  of the learner in the window, of any card type, before the vocabulary and the
  grammar analysis, and all the submissions, of any exercise type, before the
  structure analysis. Inside the gate a category is skipped only when it has no
  sample at all. With five reviews in the window, one of them of a vocabulary
  card and incorrect, a vocabulary pattern is created from that one sample.
\<close>

theorem C3_one_sample_counterexample:
  "map log_card_id (recent_reviews_of 1 1000 gate_db) = [7, 8, 8, 8, 8]
   \<and> get_card_type 7 gate_db = Some VOCAB \<and> get_card_type 8 gate_db = Some PHRASE
   \<and> error_patterns gate_db = []
   \<and> error_patterns (snd (analyze_and_update_patterns 1 1000 gate_db)) =
       [\<lparr> pat_user_id = 1, pat_pattern_type = VOCAB_WEAKNESS,
          pat_description = VocabDescription 1, pat_count = 1, pat_severity = 0.2,
          pat_items_affected = {7}, pat_is_active = True,
          pat_first_detected_at = 1000, pat_last_seen_at = 1000 \<rparr>]"
  by (simp add: detector_defs gate_db_def review_of_def example_srs_def Let_def)

text \<open>
  C3 as amended: the detector concludes on a category exactly when three things
  hold. The learner has at least 5 reviews in the window, all card types
  together (for structure: at least 5 submissions, all exercise types
  together); the category has at least one sample among them; and the error
  rate of the category is at least its threshold (0.40 for vocabulary, 0.35 for
  grammar, 0.45 for structure). Then the pass returns an active pattern of the
  learner and of the category's type, and one detection is added to the
  patterns of that type; otherwise it returns none for the category and the
  patterns of the type are as they were. With fewer than 5 reviews and fewer
  than 5 submissions the pass returns no pattern and leaves the database as it
  was.
\<close>

theorem C3_detector_gate:
  "map (\<lambda>p. (pat_user_id p, pat_pattern_type p, pat_is_active p))
       (fst (analyze_and_update_patterns uid now db)) =
     (if 5 \<le> length (recent_reviews_of uid now db)
         \<and> review_samples VOCAB (recent_reviews_of uid now db) db \<noteq> []
         \<and> 0.40 \<le> review_error_rate VOCAB (recent_reviews_of uid now db) db
      then [(uid, VOCAB_WEAKNESS, True)] else [])
     @ (if 5 \<le> length (recent_reviews_of uid now db)
           \<and> review_samples GRAMMAR (recent_reviews_of uid now db) db \<noteq> []
           \<and> 0.35 \<le> review_error_rate GRAMMAR (recent_reviews_of uid now db) db
        then [(uid, GRAMMAR_CONFUSION, True)] else [])
     @ (if 5 \<le> length (recent_submissions_of uid now db)
           \<and> structure_samples (recent_submissions_of uid now db) db \<noteq> []
           \<and> 0.45 \<le> structure_error_rate (recent_submissions_of uid now db) db
        then [(uid, STRUCTURE_CONFUSION, True)] else [])
   \<and> detections VOCAB_WEAKNESS (snd (analyze_and_update_patterns uid now db)) =
     detections VOCAB_WEAKNESS db
       + (if 5 \<le> length (recent_reviews_of uid now db)
             \<and> review_samples VOCAB (recent_reviews_of uid now db) db \<noteq> []
             \<and> 0.40 \<le> review_error_rate VOCAB (recent_reviews_of uid now db) db
          then 1 else 0)
   \<and> detections GRAMMAR_CONFUSION (snd (analyze_and_update_patterns uid now db)) =
       detections GRAMMAR_CONFUSION db
         + (if 5 \<le> length (recent_reviews_of uid now db)
               \<and> review_samples GRAMMAR (recent_reviews_of uid now db) db \<noteq> []
               \<and> 0.35 \<le> review_error_rate GRAMMAR (recent_reviews_of uid now db) db
            then 1 else 0)
   \<and> detections STRUCTURE_CONFUSION (snd (analyze_and_update_patterns uid now db)) =
       detections STRUCTURE_CONFUSION db
         + (if 5 \<le> length (recent_submissions_of uid now db)
               \<and> structure_samples (recent_submissions_of uid now db) db \<noteq> []
               \<and> 0.45 \<le> structure_error_rate (recent_submissions_of uid now db) db
            then 1 else 0)
   \<and> (\<not> (5 \<le> length (recent_reviews_of uid now db)
           \<and> review_samples VOCAB (recent_reviews_of uid now db) db \<noteq> []
           \<and> 0.40 \<le> review_error_rate VOCAB (recent_reviews_of uid now db) db) \<longrightarrow>
        patterns_of_type VOCAB_WEAKNESS (snd (analyze_and_update_patterns uid now db))
          = patterns_of_type VOCAB_WEAKNESS db)
   \<and> (\<not> (5 \<le> length (recent_reviews_of uid now db)
           \<and> review_samples GRAMMAR (recent_reviews_of uid now db) db \<noteq> []
           \<and> 0.35 \<le> review_error_rate GRAMMAR (recent_reviews_of uid now db) db) \<longrightarrow>
        patterns_of_type GRAMMAR_CONFUSION (snd (analyze_and_update_patterns uid now db))
          = patterns_of_type GRAMMAR_CONFUSION db)
   \<and> (\<not> (5 \<le> length (recent_submissions_of uid now db)
           \<and> structure_samples (recent_submissions_of uid now db) db \<noteq> []
           \<and> 0.45 \<le> structure_error_rate (recent_submissions_of uid now db) db) \<longrightarrow>
        patterns_of_type STRUCTURE_CONFUSION (snd (analyze_and_update_patterns uid now db))
          = patterns_of_type STRUCTURE_CONFUSION db)
   \<and> (length (recent_reviews_of uid now db) < 5
        \<and> length (recent_submissions_of uid now db) < 5 \<longrightarrow>
        analyze_and_update_patterns uid now db = ([], db))"
proof -
  have v: "detections VOCAB_WEAKNESS (snd (analyze_and_update_patterns uid now db))
      = detections VOCAB_WEAKNESS (after_review_analysis uid now db)"
    and g: "detections GRAMMAR_CONFUSION (snd (analyze_and_update_patterns uid now db))
      = detections GRAMMAR_CONFUSION (after_review_analysis uid now db)"
    by (rule detections_cong, rule analyze_and_update_patterns_other, simp)+
  have p3: "analyze_and_update_patterns uid now db = ([], db)"
    if "length (recent_reviews_of uid now db) < 5"
      and "length (recent_submissions_of uid now db) < 5"
    using that
    by (simp add: analyze_and_update_patterns_def Let_def MIN_REVIEWS_FOR_ANALYSIS_def)
  show ?thesis
    using p3
      analyze_and_update_patterns_returns [of uid now db]
      after_review_analysis_vocab [of uid now db]
      after_review_analysis_grammar [of uid now db]
      analyze_and_update_patterns_structure [of uid now db]
      after_review_analysis_vocab_unchanged [of uid now db]
      after_review_analysis_grammar_unchanged [of uid now db]
      analyze_and_update_patterns_structure_unchanged [of uid now db]
      analyze_and_update_patterns_other [of VOCAB_WEAKNESS uid now db]
      analyze_and_update_patterns_other [of GRAMMAR_CONFUSION uid now db]
    unfolding v g
    by (intro conjI impI) simp_all
qed

theorem C3_detector_gate_witness:
  "(5 \<le> length (recent_reviews_of 1 1000 gate_db)
     \<and> length (review_samples VOCAB (recent_reviews_of 1 1000 gate_db) gate_db) = 1
     \<and> 0.40 \<le> review_error_rate VOCAB (recent_reviews_of 1 1000 gate_db) gate_db)
   \<and> detections VOCAB_WEAKNESS gate_db = 0
   \<and> map (\<lambda>p. (pat_user_id p, pat_pattern_type p, pat_is_active p))
         (fst (analyze_and_update_patterns 1 1000 gate_db)) = [(1, VOCAB_WEAKNESS, True)]
   \<and> detections VOCAB_WEAKNESS (snd (analyze_and_update_patterns 1 1000 gate_db)) = 1
   \<and> patterns_of_type GRAMMAR_CONFUSION (snd (analyze_and_update_patterns 1 1000 gate_db)) = []
   \<and> length (recent_reviews_of 1 1000 short_db) = 4
   \<and> length (review_samples VOCAB (recent_reviews_of 1 1000 short_db) short_db) = 4
   \<and> review_error_rate VOCAB (recent_reviews_of 1 1000 short_db) short_db = 1
   \<and> length (recent_submissions_of 1 1000 short_db) < 5
   \<and> analyze_and_update_patterns 1 1000 short_db = ([], short_db)"
proof -
  have g1: "5 \<le> length (recent_reviews_of 1 1000 gate_db)"
    and g2: "length (review_samples VOCAB (recent_reviews_of 1 1000 gate_db) gate_db) = 1"
    and g3: "0.40 \<le> review_error_rate VOCAB (recent_reviews_of 1 1000 gate_db) gate_db"
    and g4: "detections VOCAB_WEAKNESS gate_db = 0"
    and g5: "review_samples GRAMMAR (recent_reviews_of 1 1000 gate_db) gate_db = []"
    and g6: "patterns_of_type GRAMMAR_CONFUSION gate_db = []"
    and g7: "recent_submissions_of 1 1000 gate_db = []"
    by (simp_all add: sample_defs)
  have s1: "length (recent_reviews_of 1 1000 short_db) = 4"
    and s2: "length (review_samples VOCAB (recent_reviews_of 1 1000 short_db) short_db) = 4"
    and s3: "review_error_rate VOCAB (recent_reviews_of 1 1000 short_db) short_db = 1"
    and s4: "length (recent_submissions_of 1 1000 short_db) < 5"
    by (simp_all add: sample_defs)
  from g2 have g2': "review_samples VOCAB (recent_reviews_of 1 1000 gate_db) gate_db \<noteq> []"
    by auto
  from C3_detector_gate [where uid = 1 and now = 1000 and db = gate_db]
    g1 g2' g3 g4 g5 g6 g7
  have a: "detections VOCAB_WEAKNESS (snd (analyze_and_update_patterns 1 1000 gate_db)) = 1"
    and b: "patterns_of_type GRAMMAR_CONFUSION
              (snd (analyze_and_update_patterns 1 1000 gate_db)) = []"
    and r: "map (\<lambda>p. (pat_user_id p, pat_pattern_type p, pat_is_active p))
              (fst (analyze_and_update_patterns 1 1000 gate_db)) = [(1, VOCAB_WEAKNESS, True)]"
    by simp_all
  from C3_detector_gate [where uid = 1 and now = 1000 and db = short_db] s1 s4
  have c: "analyze_and_update_patterns 1 1000 short_db = ([], short_db)"
    by simp
  from g1 g2 g3 g4 a b r s1 s2 s3 s4 c show ?thesis by blast
qed

section \<open>Properties of the answer evaluator\<close>

lemmas string_defs =
  normalize_answer_def ascii_lower_def ustr_def py_strip_def is_space_def
  strip_final_punctuation_def is_final_punctuation_def py_split_def

subsection \<open>C8: a sentence built from the wrong words or in the wrong order\<close>

text \<open>
  Claim C8: a BuildSentence answer that is not blank and matches neither the
  normalized expected answer nor one of its alternatives is incorrect. When the
  word sets of the two normalized answers are equal, the score is 0.7 and the
  category "order"; otherwise, when the share of the expected words that the
  answer has is at least 0.7, the score is that share and the category "order";
  otherwise the score is 0 and the category "meaning". The property holds for
  every function taken for \<^verbatim>\<open>str.lower\<close>. An expected answer with no word has
  the share 0 here, and the source skips the division for it: both end in
  "meaning".
\<close>

theorem C8_build_sentence:
  assumes "\<not> (user_answer = [] \<or> py_strip user_answer = [])"
    and "normalize_answer lower user_answer \<noteq> normalize_answer lower expected_answer"
    and "normalize_answer lower user_answer
           \<notin> set (map (normalize_answer lower) (split_on 47 expected_answer))"
  shows
    "(word_set lower user_answer = word_set lower expected_answer \<longrightarrow>
        \<not> is_correct (evaluate_answer lower user_answer expected_answer BUILD_SENTENCE)
        \<and> score (evaluate_answer lower user_answer expected_answer BUILD_SENTENCE) = 0.7
        \<and> error_category (evaluate_answer lower user_answer expected_answer BUILD_SENTENCE)
            = Some (ustr ''order''))
     \<and> (word_set lower user_answer \<noteq> word_set lower expected_answer
          \<and> 0.7 \<le> real (card (word_set lower user_answer \<inter> word_set lower expected_answer))
                      / real (card (word_set lower expected_answer)) \<longrightarrow>
        \<not> is_correct (evaluate_answer lower user_answer expected_answer BUILD_SENTENCE)
        \<and> score (evaluate_answer lower user_answer expected_answer BUILD_SENTENCE)
            = real (card (word_set lower user_answer \<inter> word_set lower expected_answer))
                / real (card (word_set lower expected_answer))
        \<and> error_category (evaluate_answer lower user_answer expected_answer BUILD_SENTENCE)
            = Some (ustr ''order''))
     \<and> (word_set lower user_answer \<noteq> word_set lower expected_answer
          \<and> \<not> 0.7 \<le> real (card (word_set lower user_answer \<inter> word_set lower expected_answer))
                        / real (card (word_set lower expected_answer)) \<longrightarrow>
        \<not> is_correct (evaluate_answer lower user_answer expected_answer BUILD_SENTENCE)
        \<and> score (evaluate_answer lower user_answer expected_answer BUILD_SENTENCE) = 0
        \<and> error_category (evaluate_answer lower user_answer expected_answer BUILD_SENTENCE)
            = Some (ustr ''meaning''))"
proof -
  have ev: "evaluate_answer lower user_answer expected_answer BUILD_SENTENCE =
      evaluate_build_sentence (normalize_answer lower user_answer)
        (normalize_answer lower expected_answer) user_answer expected_answer"
    using assms by (simp add: evaluate_answer_def Let_def)
  show ?thesis
    unfolding ev
    by (auto simp: evaluate_build_sentence_def word_set_def Let_def)
qed

theorem C8_build_sentence_witness:
  "\<not> (ustr ''B  a.'' = [] \<or> py_strip (ustr ''B  a.'') = [])
   \<and> normalize_answer ascii_lower (ustr ''B  a.'') \<noteq> normalize_answer ascii_lower (ustr ''a b'')
   \<and> normalize_answer ascii_lower (ustr ''B  a.'')
        \<notin> set (map (normalize_answer ascii_lower) (split_on 47 (ustr ''a b'')))
   \<and> word_set ascii_lower (ustr ''B  a.'') = word_set ascii_lower (ustr ''a b'')
   \<and> \<not> is_correct (evaluate_answer ascii_lower (ustr ''B  a.'') (ustr ''a b'') BUILD_SENTENCE)
   \<and> score (evaluate_answer ascii_lower (ustr ''B  a.'') (ustr ''a b'') BUILD_SENTENCE) = 0.7
   \<and> error_category (evaluate_answer ascii_lower (ustr ''B  a.'') (ustr ''a b'') BUILD_SENTENCE)
       = Some (ustr ''order'')"
proof -
  have h1: "\<not> (ustr ''B  a.'' = [] \<or> py_strip (ustr ''B  a.'') = [])"
    by (simp add: string_defs)
  have h2: "normalize_answer ascii_lower (ustr ''B  a.'')
              \<noteq> normalize_answer ascii_lower (ustr ''a b'')"
    by (simp add: string_defs)
  have h3: "normalize_answer ascii_lower (ustr ''B  a.'')
        \<notin> set (map (normalize_answer ascii_lower) (split_on 47 (ustr ''a b'')))"
    by (simp add: string_defs)
  have ws: "word_set ascii_lower (ustr ''B  a.'') = word_set ascii_lower (ustr ''a b'')"
    by (auto simp add: word_set_def string_defs)
  from C8_build_sentence [OF h1 h2 h3] ws
  have "\<not> is_correct (evaluate_answer ascii_lower (ustr ''B  a.'') (ustr ''a b'') BUILD_SENTENCE)
   \<and> score (evaluate_answer ascii_lower (ustr ''B  a.'') (ustr ''a b'') BUILD_SENTENCE) = 0.7
   \<and> error_category (evaluate_answer ascii_lower (ustr ''B  a.'') (ustr ''a b'') BUILD_SENTENCE)
       = Some (ustr ''order'')"
    by blast
  with h1 h2 h3 ws show ?thesis by blast
qed


text \<open>
  The words are cut at whitespace only. A sentence written without spaces is
  one word, so the same words in another order, typed with spaces, share no
  word with it (the code points are those of a Japanese sentence of four
  words).
\<close>

lemma build_sentence_unspaced_expected:
  "evaluate_answer ascii_lower
     [0x98DF, 0x3079, 0x307E, 0x3059, 32, 0x79C1, 0x306F, 32, 0x6BCE, 0x65E5, 32,
      0x3054, 0x98EF, 0x3092]
     [0x79C1, 0x306F, 0x6BCE, 0x65E5, 0x3054, 0x98EF, 0x3092, 0x98DF, 0x3079, 0x307E, 0x3059]
     BUILD_SENTENCE =
   \<lparr> is_correct = False, score = 0,
     feedback = ustr ''Resposta incorreta. Correto: ''
       @ [0x79C1, 0x306F, 0x6BCE, 0x65E5, 0x3054, 0x98EF, 0x3092, 0x98DF, 0x3079, 0x307E,
          0x3059],
     error_category = Some (ustr ''meaning'') \<rparr>"
  by (simp add: evaluate_answer_def evaluate_build_sentence_def string_defs Let_def)

end
